theory Spec2Isabelle
  imports Main "HOL-Library.Sublist"
begin

section \<open>Python values, errors and paths\<close>

text \<open>
  The module \<^verbatim>\<open>app/config.py\<close> is modelled: the two preview transformers (the citation
  markup rewriter), the three configuration classes and the registrations made on the
  composer while the class body of \<^verbatim>\<open>Config\<close> runs.

  A \<^verbatim>\<open>pathlib.Path\<close> is kept as the expression that built it: \<open>Path s\<close> is
  \<^verbatim>\<open>pathlib.Path(s)\<close>, \<open>Parent p\<close> is \<^verbatim>\<open>p.parent\<close>, \<open>Absolute p\<close> is
  \<^verbatim>\<open>p.absolute()\<close> and \<open>Join p c\<close> is \<^verbatim>\<open>p / c\<close>. What \<^verbatim>\<open>str(p)\<close> returns depends on
  the operating system and the working directory; it is a parameter of the model
  (\<open>path_str\<close> below).
\<close>

datatype path = Path string | Parent path | Absolute path | Join path string

type_synonym addr = nat

text \<open>
  The Python values that occur as class attributes or as arguments of a transformer.
  \<open>PyRef a\<close> is a reference to the composer object stored at address \<open>a\<close>. A Python
  \<^verbatim>\<open>str\<close> is a \<open>string\<close>; every character the two patterns and the two replacement
  texts mention is ASCII.
\<close>

datatype pyval =
    PyNone
  | PyStr string
  | PyBool bool
  | PyInt int
  | PyList "pyval list"
  | PyPath path
  | PyRef addr

text \<open>
  The exceptions of the model: \<open>EnvError name\<close> is raised by \<^verbatim>\<open>environs\<close> for a
  variable that is read without a default and is not set, \<open>EnvValidationError name\<close>
  for a variable whose text the typed parser rejects, and \<open>TypeError\<close> by \<^verbatim>\<open>re.sub\<close>
  for an argument that is not a \<^verbatim>\<open>str\<close>.
\<close>

datatype error = EnvError string | EnvValidationError string | TypeError

section \<open>The citation markup rewriter\<close>

text \<open>
  Lines 103 to 106 of \<^verbatim>\<open>app/config.py\<close>:
  \<^verbatim>\<open>lambda value: re.sub(r'^<span>', '<div class="csl-entry">', value, count=1)\<close> and
  \<^verbatim>\<open>lambda value: re.sub(r'</span>$', '</div>', value, count=1)\<close>.

  \<^verbatim>\<open>re.sub\<close> scans the subject from the left, tries the pattern at every position,
  and with \<^verbatim>\<open>count=1\<close> copies the rest of the subject after the first replacement.
  Neither pattern is compiled with \<^verbatim>\<open>re.MULTILINE\<close>: \<^verbatim>\<open>^\<close> matches at position 0
  only, and \<^verbatim>\<open>$\<close> matches at the end of the subject and just before a newline that
  is the last character of the subject.
\<close>

definition newline :: char where
  "newline = CHR 0x0A"

definition match_open_at :: "nat \<Rightarrow> string \<Rightarrow> bool" where
  "match_open_at pos rest = (pos = 0 \<and> prefix ''<span>'' rest)"

definition at_dollar :: "string \<Rightarrow> bool" where
  "at_dollar rest = (rest = [] \<or> rest = [newline])"

definition match_close_at :: "string \<Rightarrow> bool" where
  "match_close_at rest = (prefix ''</span>'' rest \<and> at_dollar (drop 7 rest))"

fun sub_open_from :: "nat \<Rightarrow> string \<Rightarrow> string" where
  "sub_open_from pos [] = []"
| "sub_open_from pos (c # cs) =
     (if match_open_at pos (c # cs) then ''<div class=\"csl-entry\">'' @ drop 6 (c # cs)
      else c # sub_open_from (Suc pos) cs)"

fun sub_close_from :: "string \<Rightarrow> string" where
  "sub_close_from [] = []"
| "sub_close_from (c # cs) =
     (if match_close_at (c # cs) then ''</div>'' @ drop 7 (c # cs)
      else c # sub_close_from cs)"

text \<open>
  The two lambdas. \<^verbatim>\<open>re.sub\<close> raises \<^verbatim>\<open>TypeError\<close> when the subject is not a string.
\<close>

definition lambda_open :: "pyval \<Rightarrow> error + pyval" where
  "lambda_open v =
     (case v of PyStr s \<Rightarrow> Inr (PyStr (sub_open_from 0 s)) | _ \<Rightarrow> Inl TypeError)"

definition lambda_close :: "pyval \<Rightarrow> error + pyval" where
  "lambda_close v =
     (case v of PyStr s \<Rightarrow> Inr (PyStr (sub_close_from s)) | _ \<Rightarrow> Inl TypeError)"

definition preview_transformers :: "(pyval \<Rightarrow> error + pyval) list" where
  "preview_transformers = [lambda_open, lambda_close]"

text \<open>
  The extractor of the \<^verbatim>\<open>preview\<close> field applies its transformers in list order, each
  to the result of the one before; an exception of one of them ends the run.
\<close>

fun apply_transformers :: "(pyval \<Rightarrow> error + pyval) list \<Rightarrow> pyval \<Rightarrow> error + pyval" where
  "apply_transformers [] v = Inr v"
| "apply_transformers (f # fs) v =
     (case f v of Inl e \<Rightarrow> Inl e | Inr v' \<Rightarrow> apply_transformers fs v')"

definition rewriter :: "pyval \<Rightarrow> error + pyval" where
  "rewriter v = apply_transformers preview_transformers v"

section \<open>The composer and its registrations\<close>

text \<open>
  The specs the module builds, with the arguments the module passes. The class
  \<^verbatim>\<open>Composer\<close> belongs to Kerko and is not part of this repository: the registries of
  fields and facets it fills with its own defaults (less the excluded ones), and what
  it does with a key that is already registered, are not modelled. The record below
  holds the arguments of the constructor call and, in \<open>added_fields\<close> and
  \<open>added_facets\<close>, the specs this module passes to \<^verbatim>\<open>add_field\<close> and \<^verbatim>\<open>add_facet\<close>, in
  the order of the calls. Nothing is stated here about the registry of the framework.

  Composer objects live in a heap, and a class attribute holds a reference, as in
  Python: the calls that follow the assignment of \<^verbatim>\<open>KERKO_COMPOSER\<close> act on the object
  the attribute refers to.
\<close>

datatype field_type = STORED
datatype codec = JSONFieldCodec
datatype extractor =
    RawDataExtractor
  | ItemExtractor string string
  | TransformerExtractor extractor "(pyval \<Rightarrow> error + pyval) list"

record FieldSpec =
  key :: string
  field_type :: field_type
  extractor :: extractor
  codec :: "codec option"

record CollectionFacetSpec =
  facet_key :: string
  filter_key :: string
  title :: string
  weight :: int
  collection_key :: string

record Composer =
  whoosh_language :: string
  exclude_default_facets :: "string list"
  exclude_default_fields :: "string list"
  default_child_include_re :: string
  default_child_exclude_re :: string
  added_fields :: "FieldSpec list"
  added_facets :: "CollectionFacetSpec list"

text \<open>
  The state of a module load is the heap of composer objects; a statement returns a
  value or raises, and the heap it leaves is kept in both cases.
\<close>

type_synonym heap = "Composer list"
type_synonym 'a exec = "heap \<Rightarrow> (error + 'a) \<times> heap"
type_synonym env = "string \<rightharpoonup> string"
type_synonym namespace = "(string \<times> pyval) list"
type_synonym cls = "namespace list"

text \<open>
  What the module takes from outside itself: \<^verbatim>\<open>str\<close> of a path, \<^verbatim>\<open>__file__\<close>,
  \<^verbatim>\<open>flask_babel.gettext\<close>, the boolean and integer parsers of \<^verbatim>\<open>environs\<close>, and
  \<^verbatim>\<open>extra_field_cleaner\<close> of \<^verbatim>\<open>app/transformers.py\<close>. The environment \<open>env\<close> is the
  process environment after \<^verbatim>\<open>env.read_env()\<close>.
\<close>

record platform =
  path_str :: "path \<Rightarrow> string"
  module_file :: string
  gettext :: "string \<Rightarrow> string"
  parse_bool :: "string \<Rightarrow> bool option"
  parse_int :: "string \<Rightarrow> int option"
  extra_field_cleaner :: "pyval \<Rightarrow> error + pyval"

definition returnE :: "'a \<Rightarrow> 'a exec" where
  "returnE x = (\<lambda>h. (Inr x, h))"

definition raiseE :: "error \<Rightarrow> 'a exec" where
  "raiseE e = (\<lambda>h. (Inl e, h))"

definition bindE :: "'a exec \<Rightarrow> ('a \<Rightarrow> 'b exec) \<Rightarrow> 'b exec" where
  "bindE m f = (\<lambda>h. case m h of (Inl e, h') \<Rightarrow> (Inl e, h') | (Inr x, h') \<Rightarrow> f x h')"

text \<open>
  \<^verbatim>\<open>env.str(name)\<close> raises when the variable is not set; with a default, the default
  is returned for a variable that is not set, and the parsed text otherwise.
\<close>

definition env_str :: "env \<Rightarrow> string \<Rightarrow> string exec" where
  "env_str ev name = (case ev name of None \<Rightarrow> raiseE (EnvError name) | Some raw \<Rightarrow> returnE raw)"

definition env_str_default :: "env \<Rightarrow> string \<Rightarrow> string \<Rightarrow> string exec" where
  "env_str_default ev name dflt = (case ev name of None \<Rightarrow> returnE dflt | Some raw \<Rightarrow> returnE raw)"

definition env_bool_default :: "platform \<Rightarrow> env \<Rightarrow> string \<Rightarrow> bool \<Rightarrow> bool exec" where
  "env_bool_default pf ev name dflt =
     (case ev name of
        None \<Rightarrow> returnE dflt
      | Some raw \<Rightarrow>
          (case parse_bool pf raw of
             None \<Rightarrow> raiseE (EnvValidationError name)
           | Some b \<Rightarrow> returnE b))"

definition env_int_default :: "platform \<Rightarrow> env \<Rightarrow> string \<Rightarrow> int \<Rightarrow> int exec" where
  "env_int_default pf ev name dflt =
     (case ev name of
        None \<Rightarrow> returnE dflt
      | Some raw \<Rightarrow>
          (case parse_int pf raw of
             None \<Rightarrow> raiseE (EnvValidationError name)
           | Some i \<Rightarrow> returnE i))"

text \<open>
  \<^verbatim>\<open>Composer(...)\<close> allocates a new object, with no call of this module recorded yet;
  \<^verbatim>\<open>add_field\<close> and \<^verbatim>\<open>add_facet\<close> act on the object in place, and the model records
  the spec that was passed. An address returned by \<open>new_Composer\<close> is always inside
  the heap.
\<close>

definition new_Composer :: "string \<Rightarrow> string list \<Rightarrow> string list \<Rightarrow> string \<Rightarrow> string \<Rightarrow> addr exec" where
  "new_Composer lang ex_facets ex_fields inc_re exc_re =
     (\<lambda>h. (Inr (length h),
           h @ [\<lparr>whoosh_language = lang, exclude_default_facets = ex_facets,
                 exclude_default_fields = ex_fields, default_child_include_re = inc_re,
                 default_child_exclude_re = exc_re, added_fields = [], added_facets = []\<rparr>]))"

definition add_field :: "addr \<Rightarrow> FieldSpec \<Rightarrow> unit exec" where
  "add_field a spec =
     (\<lambda>h. (Inr (), h[a := (h ! a)\<lparr>added_fields := added_fields (h ! a) @ [spec]\<rparr>]))"

definition add_facet :: "addr \<Rightarrow> CollectionFacetSpec \<Rightarrow> unit exec" where
  "add_facet a spec =
     (\<lambda>h. (Inr (), h[a := (h ! a)\<lparr>added_facets := added_facets (h ! a) @ [spec]\<rparr>]))"

section \<open>The configuration classes\<close>

text \<open>
  A class body runs its statements in order and leaves a namespace: the list of the
  names it assigned, with their values. The body of \<^verbatim>\<open>Config\<close> (lines 17 to 140)
  reads the environment first, then creates the composer and registers two fields and
  three facets on it. The namespace is written as a function of the values read, in
  the order of the assignments of the source; an assignment of a constant does nothing
  but bind the name.
\<close>

definition Config_namespace ::
  "platform \<Rightarrow> path \<Rightarrow> string \<Rightarrow> string \<Rightarrow> string \<Rightarrow> string \<Rightarrow> string \<Rightarrow> string \<Rightarrow> addr \<Rightarrow>
     namespace" where
  "Config_namespace pf app_dir secret_key zotero_api_key zotero_library_id
       zotero_library_type data_dir kerko_whoosh_language composer =
     (let static_src_vendor =
            Join (Join (Join (Parent (Parent (Path (module_file pf)))) ''static'') ''src'')
              ''vendor''
      in
       [(''app_dir'', PyPath app_dir),
        (''SECRET_KEY'', PyStr secret_key),
        (''KERKO_ZOTERO_API_KEY'', PyStr zotero_api_key),
        (''KERKO_ZOTERO_LIBRARY_ID'', PyStr zotero_library_id),
        (''KERKO_ZOTERO_LIBRARY_TYPE'', PyStr zotero_library_type),
        (''KERKO_DATA_DIR'', PyStr data_dir),
        (''LOGGING_HANDLER'', PyStr ''default''),
        (''EXPLAIN_TEMPLATE_LOADING'', PyBool False),
        (''LIBSASS_INCLUDES'',
           PyList [PyStr (path_str pf (Join (Join static_src_vendor ''bootstrap'') ''scss'')),
                   PyStr (path_str pf (Join (Join (Join static_src_vendor ''@fortawesome'')
                                          ''fontawesome-free'') ''scss''))]),
        (''BABEL_DEFAULT_LOCALE'', PyStr ''en_GB''),
        (''KERKO_WHOOSH_LANGUAGE'', PyStr kerko_whoosh_language),
        (''KERKO_ZOTERO_LOCALE'', PyStr ''en-GB''),
        (''HOME_URL'', PyStr ''https://is.eved.io''),
        (''HOME_TITLE'', PyStr (gettext pf ''Implementation Science'')),
        (''NAV_TITLE'', PyStr (gettext pf ''Home'')),
        (''KERKO_TITLE'', PyStr (gettext pf ''Implementation Science'')),
        (''EVED_IO_TITLE'', PyStr (gettext pf ''eved.io'')),
        (''EVED_IO_LINK'', PyStr (gettext pf ''https://eved.io'')),
        (''KERKO_PRINT_ITEM_LINK'', PyBool True),
        (''KERKO_PRINT_CITATIONS_LINK'', PyBool True),
        (''KERKO_RESULTS_FIELDS'',
           PyList [PyStr ''id'', PyStr ''attachments'', PyStr ''bib'', PyStr ''coins'',
                   PyStr ''data'', PyStr ''preview'', PyStr ''url'']),
        (''KERKO_RESULTS_ABSTRACTS'', PyBool True),
        (''KERKO_RESULTS_ABSTRACTS_MAX_LENGTH'', PyInt 500),
        (''KERKO_RESULTS_ABSTRACTS_MAX_LENGTH_LEEWAY'', PyInt 40),
        (''KERKO_TEMPLATE_BASE'', PyStr ''app/base.html.jinja2''),
        (''KERKO_TEMPLATE_LAYOUT'', PyStr ''app/layout.html.jinja2''),
        (''KERKO_TEMPLATE_SEARCH'', PyStr ''app/search.html.jinja2''),
        (''KERKO_TEMPLATE_SEARCH_ITEM'', PyStr ''app/search-item.html.jinja2''),
        (''KERKO_TEMPLATE_ITEM'', PyStr ''app/item.html.jinja2''),
        (''KERKO_DOWNLOAD_ATTACHMENT_NEW_WINDOW'', PyBool True),
        (''KERKO_RELATIONS_INITIAL_LIMIT'', PyInt 50),
        (''KERKO_CSL_STYLE'',
           PyStr ''https://docs.edtechhub.org/static/dist/csl/eth_apa.xml?202012301815''),
        (''KERKO_COMPOSER'', PyRef composer)])"

text \<open>
  The five registrations of lines 77 to 140, in order, on the composer at address
  \<open>composer\<close>.
\<close>

definition Config_registrations :: "platform \<Rightarrow> addr \<Rightarrow> unit exec" where
  "Config_registrations pf composer =
     bindE (add_field composer
              \<lparr>key = ''data'', field_type = STORED,
               extractor = TransformerExtractor RawDataExtractor [extra_field_cleaner pf],
               codec = Some JSONFieldCodec\<rparr>) (\<lambda>_.
     bindE (add_field composer
              \<lparr>key = ''preview'', field_type = STORED,
               extractor = TransformerExtractor (ItemExtractor ''citation'' ''citation'')
                             preview_transformers,
               codec = None\<rparr>) (\<lambda>_.
     bindE (add_facet composer
              \<lparr>facet_key = ''facet_proposal'', filter_key = ''proposal'',
               title = gettext pf ''Our proposal'', weight = 10,
               collection_key = ''XWXU8XAB''\<rparr>) (\<lambda>_.
     bindE (add_facet composer
              \<lparr>facet_key = ''facet_theme'', filter_key = ''theme'',
               title = gettext pf ''Theme'', weight = 20,
               collection_key = ''Z27MIXI7''\<rparr>) (\<lambda>_.
     add_facet composer
              \<lparr>facet_key = ''facet_location'', filter_key = ''location'',
               title = gettext pf ''Location'', weight = 30,
               collection_key = ''5JVH374W''\<rparr>))))"

text \<open>
  The class body: the six reads of the environment (lines 18 to 25), the language
  bound to \<^verbatim>\<open>KERKO_WHOOSH_LANGUAGE\<close> (line 37) and passed to the new composer (lines
  68 to 74), the registrations, and the namespace the body leaves.
\<close>

definition Config_body :: "platform \<Rightarrow> env \<Rightarrow> namespace exec" where
  "Config_body pf ev =
     bindE (env_str ev ''FLASK_APP'') (\<lambda>flask_app.
     let app_dir = Absolute (Parent (Path flask_app)) in
     bindE (env_str ev ''SECRET_KEY'') (\<lambda>secret_key.
     bindE (env_str ev ''KERKO_ZOTERO_API_KEY'') (\<lambda>zotero_api_key.
     bindE (env_str ev ''KERKO_ZOTERO_LIBRARY_ID'') (\<lambda>zotero_library_id.
     bindE (env_str ev ''KERKO_ZOTERO_LIBRARY_TYPE'') (\<lambda>zotero_library_type.
     bindE (env_str_default ev ''KERKO_DATA_DIR''
              (path_str pf (Join (Join app_dir ''data'') ''kerko''))) (\<lambda>data_dir.
     let kerko_whoosh_language = ''en'' in
     bindE (new_Composer kerko_whoosh_language [''facet_tag'', ''facet_link'', ''facet_item_type'']
              [''data''] ''^(_publish|publishPDF)$'' []) (\<lambda>composer.
     bindE (Config_registrations pf composer) (\<lambda>_.
     returnE (Config_namespace pf app_dir secret_key zotero_api_key zotero_library_id
                zotero_library_type data_dir kerko_whoosh_language composer)))))))))"

text \<open>Lines 143 to 150 and 153 to 160.\<close>

definition DevelopmentConfig_namespace :: "bool \<Rightarrow> int \<Rightarrow> int \<Rightarrow> string \<Rightarrow> namespace" where
  "DevelopmentConfig_namespace assets_debug zotero_start zotero_end logging_level =
       [(''CONFIG'', PyStr ''development''),
        (''DEBUG'', PyBool True),
        (''ASSETS_DEBUG'', PyBool assets_debug),
        (''KERKO_ZOTERO_START'', PyInt zotero_start),
        (''KERKO_ZOTERO_END'', PyInt zotero_end),
        (''LIBSASS_STYLE'', PyStr ''expanded''),
        (''LOGGING_LEVEL'', PyStr logging_level)]"

definition DevelopmentConfig_body :: "platform \<Rightarrow> env \<Rightarrow> namespace exec" where
  "DevelopmentConfig_body pf ev =
     bindE (env_bool_default pf ev ''ASSETS_DEBUG'' True) (\<lambda>assets_debug.
     bindE (env_int_default pf ev ''KERKO_ZOTERO_START'' 0) (\<lambda>zotero_start.
     bindE (env_int_default pf ev ''KERKO_ZOTERO_END'' 0) (\<lambda>zotero_end.
     bindE (env_str_default ev ''LOGGING_LEVEL'' ''DEBUG'') (\<lambda>logging_level.
     returnE (DevelopmentConfig_namespace assets_debug zotero_start zotero_end
                logging_level)))))"

definition ProductionConfig_namespace :: "bool \<Rightarrow> string \<Rightarrow> namespace" where
  "ProductionConfig_namespace assets_debug logging_level =
       [(''CONFIG'', PyStr ''production''),
        (''DEBUG'', PyBool False),
        (''ASSETS_DEBUG'', PyBool assets_debug),
        (''ASSETS_AUTO_BUILD'', PyBool False),
        (''LOGGING_LEVEL'', PyStr logging_level),
        (''GOOGLE_ANALYTICS_ID'', PyStr []),
        (''LIBSASS_STYLE'', PyStr ''compressed'')]"

definition ProductionConfig_body :: "platform \<Rightarrow> env \<Rightarrow> namespace exec" where
  "ProductionConfig_body pf ev =
     bindE (env_bool_default pf ev ''ASSETS_DEBUG'' False) (\<lambda>assets_debug.
     bindE (env_str_default ev ''LOGGING_LEVEL'' ''WARNING'') (\<lambda>logging_level.
     returnE (ProductionConfig_namespace assets_debug logging_level)))"

text \<open>
  A class is the list of the namespaces on its method resolution order, its own first.
  Attribute lookup returns the first binding found; \<open>None\<close> is \<^verbatim>\<open>AttributeError\<close>.
\<close>

fun class_getattr :: "cls \<Rightarrow> string \<Rightarrow> pyval option" where
  "class_getattr [] name = None"
| "class_getattr (ns # mro) name =
     (case map_of ns name of Some v \<Rightarrow> Some v | None \<Rightarrow> class_getattr mro name)"

text \<open>
  Loading the module runs the three class bodies in order and binds \<^verbatim>\<open>CONFIGS\<close>
  (lines 163 to 166).
\<close>

record module =
  Config :: cls
  DevelopmentConfig :: cls
  ProductionConfig :: cls
  CONFIGS :: "(string \<times> cls) list"

definition load_module :: "platform \<Rightarrow> env \<Rightarrow> module exec" where
  "load_module pf ev =
     bindE (Config_body pf ev) (\<lambda>config_ns.
     bindE (DevelopmentConfig_body pf ev) (\<lambda>development_ns.
     bindE (ProductionConfig_body pf ev) (\<lambda>production_ns.
     returnE
       \<lparr>Config = [config_ns],
        DevelopmentConfig = [development_ns, config_ns],
        ProductionConfig = [production_ns, config_ns],
        CONFIGS = [(''development'', [development_ns, config_ns]),
                   (''production'', [production_ns, config_ns])]\<rparr>)))"

text \<open>
  The variables the body of \<^verbatim>\<open>Config\<close> reads without a default (lines 18 to 24), in
  the order of the reads.
\<close>

definition required_variables :: "string list" where
  "required_variables =
     [''FLASK_APP'', ''SECRET_KEY'', ''KERKO_ZOTERO_API_KEY'', ''KERKO_ZOTERO_LIBRARY_ID'',
      ''KERKO_ZOTERO_LIBRARY_TYPE'']"

text \<open>
  The module object of a load that starts from the empty heap and succeeds.
\<close>

definition loaded :: "platform \<Rightarrow> env \<Rightarrow> module" where
  "loaded pf ev = projr (fst (load_module pf ev []))"

section \<open>A platform and three environments for concrete instances\<close>

text \<open>
  Any functions can stand for the parameters of the platform; these are small ones on
  which the definitions can be evaluated. \<open>required_only_env\<close> sets the five required
  variables and nothing else, \<open>full_env\<close> sets all ten, and \<open>no_secret_env\<close> lacks
  \<^verbatim>\<open>SECRET_KEY\<close>.
\<close>

fun sample_path_str :: "path \<Rightarrow> string" where
  "sample_path_str (Path s) = s"
| "sample_path_str (Parent p) = sample_path_str p @ ''/..''"
| "sample_path_str (Absolute p) = ''/srv/'' @ sample_path_str p"
| "sample_path_str (Join p c) = sample_path_str p @ ''/'' @ c"

definition sample_platform :: platform where
  "sample_platform =
     \<lparr>path_str = sample_path_str,
      module_file = ''app/config.py'',
      gettext = (\<lambda>s. s),
      parse_bool = (\<lambda>s. if s = ''true'' then Some True
                         else if s = ''false'' then Some False else None),
      parse_int = (\<lambda>s. if s = ''0'' then Some 0 else if s = ''100'' then Some 100 else None),
      extra_field_cleaner = Inr\<rparr>"

definition required_only_env :: env where
  "required_only_env =
     map_of [(''FLASK_APP'', ''app''), (''SECRET_KEY'', ''s3cr3t''),
             (''KERKO_ZOTERO_API_KEY'', ''k''), (''KERKO_ZOTERO_LIBRARY_ID'', ''42''),
             (''KERKO_ZOTERO_LIBRARY_TYPE'', ''group'')]"

definition full_env :: env where
  "full_env =
     map_of [(''FLASK_APP'', ''app''), (''SECRET_KEY'', ''s3cr3t''),
             (''KERKO_ZOTERO_API_KEY'', ''k''), (''KERKO_ZOTERO_LIBRARY_ID'', ''42''),
             (''KERKO_ZOTERO_LIBRARY_TYPE'', ''group''), (''KERKO_DATA_DIR'', ''/data''),
             (''ASSETS_DEBUG'', ''false''), (''KERKO_ZOTERO_START'', ''100''),
             (''KERKO_ZOTERO_END'', ''0''), (''LOGGING_LEVEL'', ''INFO'')]"

definition no_secret_env :: env where
  "no_secret_env =
     map_of [(''FLASK_APP'', ''app''),
             (''KERKO_ZOTERO_API_KEY'', ''k''), (''KERKO_ZOTERO_LIBRARY_ID'', ''42''),
             (''KERKO_ZOTERO_LIBRARY_TYPE'', ''group'')]"

section \<open>Properties of the two substitutions\<close>

text \<open>
  Past position 0 the opening pattern cannot match, so the scan copies the rest; at
  position 0 it matches exactly when the subject starts with the opening tag.
\<close>

lemma sub_open_from_Suc: "sub_open_from (Suc n) s = s"
  by (induction s arbitrary: n) (simp_all add: match_open_at_def)

lemma sub_open_from_0:
  "sub_open_from 0 s =
     (if prefix ''<span>'' s then ''<div class=\"csl-entry\">'' @ drop 6 s else s)"
  by (cases s) (simp_all add: match_open_at_def sub_open_from_Suc)

text \<open>
  The closing pattern matches at a position exactly when what is left of the subject
  is the closing tag, or the closing tag and one newline.
\<close>

lemma match_close_at_iff:
  "match_close_at r \<longleftrightarrow> r = ''</span>'' \<or> r = ''</span>'' @ [newline]"
proof
  assume "match_close_at r"
  then have p: "prefix ''</span>'' r" and d: "drop 7 r = [] \<or> drop 7 r = [newline]"
    by (simp_all add: match_close_at_def at_dollar_def)
  from p obtain z where z: "r = ''</span>'' @ z" by (auto simp: prefix_def)
  with d show "r = ''</span>'' \<or> r = ''</span>'' @ [newline]" by auto
next
  assume "r = ''</span>'' \<or> r = ''</span>'' @ [newline]"
  then show "match_close_at r" by (auto simp: match_close_at_def at_dollar_def)
qed

text \<open>The two tags cannot overlap: a wrapped string has an interior.\<close>

lemma span_wrap:
  assumes "''<span>'' @ z = y @ ''</span>''"
  shows "\<exists>m. z = m @ ''</span>'' \<and> y = ''<span>'' @ m"
  using assms by (auto simp: append_eq_append_conv2 Cons_eq_append_conv append_eq_Cons_conv)

lemma sub_close_tag: "sub_close_from (t @ ''</span>'') = t @ ''</div>''"
proof (induction t)
  case Nil
  show ?case by (simp add: match_close_at_def at_dollar_def)
next
  case (Cons c t)
  have "\<not> match_close_at (c # t @ ''</span>'')"
    by (auto simp: match_close_at_iff newline_def Cons_eq_append_conv append_eq_Cons_conv)
  with Cons show ?case by simp
qed

lemma sub_close_tag_nl:
  "sub_close_from (t @ ''</span>'' @ [newline]) = t @ ''</div>'' @ [newline]"
proof (induction t)
  case Nil
  show ?case by (simp add: match_close_at_def at_dollar_def)
next
  case (Cons c t)
  have "\<not> match_close_at (c # t @ ''</span>'' @ [newline])"
    by (auto simp: match_close_at_iff newline_def Cons_eq_append_conv append_eq_Cons_conv)
  with Cons show ?case by simp
qed

lemma sub_close_nomatch:
  "\<not> suffix ''</span>'' s \<Longrightarrow> \<not> suffix (''</span>'' @ [newline]) s \<Longrightarrow> sub_close_from s = s"
proof (induction s)
  case Nil
  show ?case by simp
next
  case (Cons c s)
  from Cons.prems have "\<not> match_close_at (c # s)"
    by (auto simp: match_close_at_iff)
  moreover from Cons.prems have "\<not> suffix ''</span>'' s" "\<not> suffix (''</span>'' @ [newline]) s"
    by (auto simp: suffix_Cons)
  ultimately show ?case using Cons.IH by simp
qed

lemma rewriter_str:
  "rewriter (PyStr s) = Inr (PyStr (sub_close_from (sub_open_from 0 s)))"
  by (simp add: rewriter_def preview_transformers_def lambda_open_def lambda_close_def)

lemma prefix_span_append:
  "prefix ''<span>'' (s @ ''</span>'' @ r) \<longleftrightarrow> prefix ''<span>'' s"
  by (auto simp: prefix_def append_eq_append_conv2 Cons_eq_append_conv append_eq_Cons_conv)

lemma sub_open_append_close:
  "sub_open_from 0 (s @ ''</span>'' @ r) = sub_open_from 0 s @ ''</span>'' @ r"
  unfolding sub_open_from_0 prefix_span_append
  by (auto simp: prefix_def)

text \<open>
  No position inside the replacement of the opening tag starts a closing tag, so the
  closing substitution passes over it.
\<close>

lemma sub_close_div_open:
  "sub_close_from (''<div class=\"csl-entry\">'' @ z) = ''<div class=\"csl-entry\">'' @ sub_close_from z"
  by (simp add: match_close_at_def)

lemma rewriter_cases:
  "rewriter (PyStr s) =
     Inr (PyStr (if prefix ''<span>'' s
                 then ''<div class=\"csl-entry\">'' @ sub_close_from (drop 6 s)
                 else sub_close_from s))"
  unfolding rewriter_str sub_open_from_0
  by (simp only: sub_close_div_open if_distrib [of sub_close_from] cong: if_cong)

text \<open>
  The closing substitution on any string: the final tag is replaced, or the tag before
  one final newline is replaced, or nothing is.
\<close>

lemma sub_close_cases:
  obtains (final) t where "s = t @ ''</span>''" "sub_close_from s = t @ ''</div>''"
  | (before_newline) t where "s = t @ ''</span>'' @ [newline]"
      "sub_close_from s = t @ ''</div>'' @ [newline]"
  | (nomatch) "\<not> suffix ''</span>'' s" "\<not> suffix (''</span>'' @ [newline]) s"
      "sub_close_from s = s"
proof (cases "suffix ''</span>'' s")
  case True
  then obtain t where "s = t @ ''</span>''" unfolding suffix_def by blast
  then show ?thesis using final sub_close_tag by blast
next
  case False
  show ?thesis
  proof (cases "suffix (''</span>'' @ [newline]) s")
    case True
    then obtain t where "s = t @ ''</span>'' @ [newline]" unfolding suffix_def by blast
    then show ?thesis using before_newline sub_close_tag_nl by blast
  next
    case n: False
    show ?thesis using nomatch [OF False n sub_close_nomatch [OF False n]] .
  qed
qed

lemma prefix_span_div:
  "prefix ''<span>'' (t @ ''</div>'' @ r) \<longleftrightarrow> prefix ''<span>'' t"
  by (auto simp: prefix_def append_eq_append_conv2 Cons_eq_append_conv append_eq_Cons_conv)

lemma sub_close_keeps_no_open:
  assumes "\<not> prefix ''<span>'' s"
  shows "\<not> prefix ''<span>'' (sub_close_from s)"
proof (cases s rule: sub_close_cases)
  case (final t)
  from assms have "\<not> prefix ''<span>'' t"
    using prefix_span_append [of t "[]"] by (simp add: final(1))
  then show ?thesis using prefix_span_div [of t "[]"] by (simp add: final(1) sub_close_tag)
next
  case (before_newline t)
  from assms have "\<not> prefix ''<span>'' t"
    unfolding before_newline(1) prefix_span_append .
  then show ?thesis
    unfolding before_newline(2) prefix_span_div .
next
  case nomatch
  with assms show ?thesis by simp
qed

lemma sub_close_idem: "sub_close_from (sub_close_from s) = sub_close_from s"
proof (cases s rule: sub_close_cases)
  case (final t)
  have "sub_close_from (t @ ''</div>'') = t @ ''</div>''"
    by (rule sub_close_nomatch) (simp_all add: suffix_to_prefix newline_def)
  then show ?thesis by (simp add: final(1) sub_close_tag)
next
  case (before_newline t)
  have "sub_close_from (t @ ''</div>'' @ [newline]) = t @ ''</div>'' @ [newline]"
    by (rule sub_close_nomatch) (simp_all add: suffix_to_prefix newline_def)
  then show ?thesis unfolding before_newline(2) .
next
  case nomatch
  then show ?thesis by simp
qed

text \<open>A second run of the rewriter finds nothing to replace.\<close>

lemma rewriter_idem:
  "\<exists>t. rewriter (PyStr s) = Inr (PyStr t) \<and> rewriter (PyStr t) = Inr (PyStr t)"
proof (cases "prefix ''<span>'' s")
  case True
  let ?t = "''<div class=\"csl-entry\">'' @ sub_close_from (drop 6 s)"
  have 1: "rewriter (PyStr s) = Inr (PyStr ?t)" using True by (simp add: rewriter_cases)
  have "\<not> prefix ''<span>'' ?t" by simp
  then have "rewriter (PyStr ?t) = Inr (PyStr (sub_close_from ?t))"
    by (simp only: rewriter_cases if_False)
  also have "sub_close_from ?t = ?t"
    by (simp only: sub_close_div_open sub_close_idem)
  finally show ?thesis using 1 by blast
next
  case False
  let ?t = "sub_close_from s"
  have 1: "rewriter (PyStr s) = Inr (PyStr ?t)" using False by (simp add: rewriter_cases)
  have "\<not> prefix ''<span>'' ?t" using False by (rule sub_close_keeps_no_open)
  then have "rewriter (PyStr ?t) = Inr (PyStr (sub_close_from ?t))"
    by (simp only: rewriter_cases if_False)
  also have "sub_close_from ?t = ?t" by (rule sub_close_idem)
  finally show ?thesis using 1 by blast
qed

section \<open>The claims about the rewriter\<close>

text \<open>
  Claim C1. A string that begins with the opening tag \<^verbatim>\<open><span>\<close> and ends with the
  closing tag \<^verbatim>\<open></span>\<close> is the opening tag, an interior and the closing tag, and
  the rewriter returns \<^verbatim>\<open><div class="csl-entry">\<close>, the same interior and \<^verbatim>\<open></div>\<close>.
\<close>

theorem rewriter_wrapped:
  assumes "prefix ''<span>'' s" and "suffix ''</span>'' s"
  shows "s = ''<span>'' @ drop 6 (take (length s - 7) s) @ ''</span>'' \<and>
         rewriter (PyStr s) =
           Inr (PyStr (''<div class=\"csl-entry\">'' @ drop 6 (take (length s - 7) s) @ ''</div>''))"
proof -
  from assms(1) obtain z where z: "s = ''<span>'' @ z"
    unfolding prefix_def by blast
  from assms(2) obtain y where y: "s = y @ ''</span>''"
    unfolding suffix_def by blast
  from z y have "''<span>'' @ z = y @ ''</span>''" by simp
  then obtain m where m: "z = m @ ''</span>''" "y = ''<span>'' @ m"
    using span_wrap by blast
  have s: "s = ''<span>'' @ m @ ''</span>''" using z m by simp
  have i: "drop 6 (take (length s - 7) s) = m" by (simp add: s)
  have o: "sub_open_from 0 s = (''<div class=\"csl-entry\">'' @ m) @ ''</span>''"
    by (simp add: s match_open_at_def)
  have "sub_close_from (sub_open_from 0 s) = (''<div class=\"csl-entry\">'' @ m) @ ''</div>''"
    unfolding o by (rule sub_close_tag)
  then show ?thesis unfolding i using s by (simp add: rewriter_str)
qed

theorem rewriter_wrapped_witness:
  "prefix ''<span>'' ''<span>Doe 2020</span>'' \<and>
   suffix ''</span>'' ''<span>Doe 2020</span>'' \<and>
   rewriter (PyStr ''<span>Doe 2020</span>'') =
     Inr (PyStr ''<div class=\"csl-entry\">Doe 2020</div>'')"
proof -
  have p: "prefix ''<span>'' ''<span>Doe 2020</span>''" by simp
  have q: "suffix ''</span>'' ''<span>Doe 2020</span>''" by (simp add: suffix_to_prefix)
  from rewriter_wrapped [OF p q] p q show ?thesis by simp
qed

text \<open>
  Claim C10. The closing substitution also fires when the closing tag is followed by
  exactly one newline that ends the string: for every string \<open>s\<close>, the rewriter maps
  \<open>s\<close> followed by \<^verbatim>\<open></span>\<close> and a newline to \<open>s\<close> after the opening substitution,
  followed by \<^verbatim>\<open></div>\<close> and the newline. The tag it replaces is not the end of the
  string.
\<close>

theorem rewriter_close_before_final_newline:
  "rewriter (PyStr (s @ ''</span>'' @ [newline])) =
     Inr (PyStr (sub_open_from 0 s @ ''</div>'' @ [newline])) \<and>
   \<not> suffix ''</span>'' (s @ ''</span>'' @ [newline])"
proof -
  have "\<not> suffix ''</span>'' (s @ ''</span>'' @ [newline])"
    by (simp add: suffix_to_prefix newline_def)
  then show ?thesis
    by (simp only: rewriter_str sub_open_append_close sub_close_tag_nl simp_thms)
qed

theorem rewriter_close_before_final_newline_witness:
  "rewriter (PyStr (''<span>Doe 2020</span>'' @ [newline])) =
     Inr (PyStr (''<div class=\"csl-entry\">Doe 2020</div>'' @ [newline]))"
  using rewriter_close_before_final_newline [of "''<span>Doe 2020''"]
  by (simp add: match_open_at_def)

lemma lambda_open_str: "lambda_open (PyStr s) = Inr (PyStr (sub_open_from 0 s))"
  by (simp add: lambda_open_def)

lemma lambda_close_str: "lambda_close (PyStr s) = Inr (PyStr (sub_close_from s))"
  by (simp add: lambda_close_def)

text \<open>The error branch of the lambdas is taken by a value that is not a string.\<close>

lemma rewriter_not_str: "rewriter PyNone = Inl TypeError"
  by (simp add: rewriter_def preview_transformers_def lambda_open_def)

text \<open>
  Claim C2, as amended. A string that does not start with \<^verbatim>\<open><span>\<close> is returned
  unchanged by the opening substitution. A string that ends neither with \<^verbatim>\<open></span>\<close>
  nor with \<^verbatim>\<open></span>\<close> and one newline is returned unchanged by the closing
  substitution. A string with none of the three is returned unchanged by the rewriter.
  For every string, the rewriter applied to its own result returns that result.
\<close>

theorem substitutions_noop_unmatched:
  "(\<not> prefix ''<span>'' s \<longrightarrow> lambda_open (PyStr s) = Inr (PyStr s)) \<and>
   (\<not> suffix ''</span>'' s \<and> \<not> suffix (''</span>'' @ [newline]) s \<longrightarrow>
      lambda_close (PyStr s) = Inr (PyStr s)) \<and>
   (\<not> prefix ''<span>'' s \<and> \<not> suffix ''</span>'' s \<and> \<not> suffix (''</span>'' @ [newline]) s \<longrightarrow>
      rewriter (PyStr s) = Inr (PyStr s)) \<and>
   (\<exists>t. rewriter (PyStr s) = Inr (PyStr t) \<and> rewriter (PyStr t) = Inr (PyStr t))"
proof (intro conjI impI)
  assume "\<not> prefix ''<span>'' s"
  then show "lambda_open (PyStr s) = Inr (PyStr s)"
    by (simp add: lambda_open_str sub_open_from_0)
next
  assume "\<not> suffix ''</span>'' s \<and> \<not> suffix (''</span>'' @ [newline]) s"
  then show "lambda_close (PyStr s) = Inr (PyStr s)"
    by (simp add: lambda_close_str sub_close_nomatch)
next
  assume "\<not> prefix ''<span>'' s \<and> \<not> suffix ''</span>'' s \<and> \<not> suffix (''</span>'' @ [newline]) s"
  then show "rewriter (PyStr s) = Inr (PyStr s)"
    by (simp add: rewriter_cases sub_close_nomatch)
next
  show "\<exists>t. rewriter (PyStr s) = Inr (PyStr t) \<and> rewriter (PyStr t) = Inr (PyStr t)"
    by (rule rewriter_idem)
qed

theorem substitutions_noop_unmatched_witness:
  "\<not> prefix ''<span>'' ''Doe 2020'' \<and>
   \<not> suffix ''</span>'' ''Doe 2020'' \<and>
   \<not> suffix (''</span>'' @ [newline]) ''Doe 2020'' \<and>
   lambda_open (PyStr ''Doe 2020'') = Inr (PyStr ''Doe 2020'') \<and>
   lambda_close (PyStr ''Doe 2020'') = Inr (PyStr ''Doe 2020'') \<and>
   rewriter (PyStr ''Doe 2020'') = Inr (PyStr ''Doe 2020'')"
proof -
  have h: "\<not> prefix ''<span>'' ''Doe 2020''" "\<not> suffix ''</span>'' ''Doe 2020''"
    "\<not> suffix (''</span>'' @ [newline]) ''Doe 2020''"
    by (simp_all add: suffix_to_prefix)
  with substitutions_noop_unmatched [of "''Doe 2020''"] show ?thesis by blast
qed

text \<open>
  Claim C2 as stated fails: this string does not end with \<^verbatim>\<open></span>\<close>, and the closing
  substitution changes it.
\<close>

theorem closing_substitution_counterexample:
  "\<not> suffix ''</span>'' (''Doe 2020</span>'' @ [newline]) \<and>
   lambda_close (PyStr (''Doe 2020</span>'' @ [newline])) =
     Inr (PyStr (''Doe 2020</div>'' @ [newline])) \<and>
   ''Doe 2020</div>'' @ [newline] \<noteq> ''Doe 2020</span>'' @ [newline]"
  by (simp add: suffix_to_prefix newline_def lambda_close_def match_close_at_def at_dollar_def)

text \<open>
  Claim C3, as amended. Every input string is a part \<open>a\<close>, a middle \<open>m\<close> and a part
  \<open>b\<close>, where \<open>a\<close> is empty or the opening tag at the very start, and \<open>b\<close> is empty, the
  closing tag at the very end, or the closing tag and the one newline that ends the
  string. The output is \<open>m\<close> unchanged, after the replacement of \<open>a\<close> when \<open>a\<close> is a tag,
  and before the replacement of the tag of \<open>b\<close> (the newline kept) when \<open>b\<close> has one.
\<close>

theorem rewriter_replaces_boundary_tags_only:
  "\<exists>a m b. s = a @ m @ b \<and>
     (a = [] \<or> a = ''<span>'') \<and>
     (b = [] \<or> b = ''</span>'' \<or> b = ''</span>'' @ [newline]) \<and>
     rewriter (PyStr s) =
       Inr (PyStr ((if a = [] then [] else ''<div class=\"csl-entry\">'') @ m @
                   (if b = [] then [] else ''</div>'' @ drop 7 b)))"
proof -
  define a where "a = (if prefix ''<span>'' s then ''<span>'' else [])"
  define z where "z = (if prefix ''<span>'' s then drop 6 s else s)"
  have s: "s = a @ z" by (auto simp: a_def z_def prefix_def)
  have r: "rewriter (PyStr s) =
      Inr (PyStr ((if a = [] then [] else ''<div class=\"csl-entry\">'') @ sub_close_from z))"
    by (simp add: rewriter_cases a_def z_def)
  have a: "a = [] \<or> a = ''<span>''" by (simp add: a_def)
  show ?thesis
  proof (cases z rule: sub_close_cases)
    case (final t)
    have "s = a @ t @ ''</span>''" using s final(1) by simp
    moreover have "rewriter (PyStr s) =
        Inr (PyStr ((if a = [] then [] else ''<div class=\"csl-entry\">'') @ t @
                    (if ''</span>'' = [] then [] else ''</div>'' @ drop 7 ''</span>'')))"
      unfolding r final(2) by simp
    ultimately show ?thesis using a by blast
  next
    case (before_newline t)
    have "s = a @ t @ ''</span>'' @ [newline]" using s before_newline(1) by simp
    moreover have "rewriter (PyStr s) =
        Inr (PyStr ((if a = [] then [] else ''<div class=\"csl-entry\">'') @ t @
                    (if ''</span>'' @ [newline] = [] then []
                     else ''</div>'' @ drop 7 (''</span>'' @ [newline]))))"
      unfolding r before_newline(2) by simp
    ultimately show ?thesis using a by blast
  next
    case nomatch
    have "s = a @ z @ []" using s by simp
    moreover have "rewriter (PyStr s) =
        Inr (PyStr ((if a = [] then [] else ''<div class=\"csl-entry\">'') @ z @
                    (if [] = [] then [] else ''</div>'' @ drop 7 [])))"
      unfolding r nomatch(3) by simp
    ultimately show ?thesis using a by blast
  qed
qed

text \<open>
  Claim C3 as stated fails: this string neither starts with the opening tag nor ends
  with the closing tag, so no tag at the start and no final tag can be replaced, and
  yet the output differs from the input.
\<close>

theorem string_final_counterexample:
  "\<not> prefix ''<span>'' (''</span>'' @ [newline]) \<and>
   \<not> suffix ''</span>'' (''</span>'' @ [newline]) \<and>
   rewriter (PyStr (''</span>'' @ [newline])) = Inr (PyStr (''</div>'' @ [newline])) \<and>
   rewriter (PyStr (''</span>'' @ [newline])) \<noteq> Inr (PyStr (''</span>'' @ [newline]))"
  by (simp add: suffix_to_prefix newline_def rewriter_str match_open_at_def
      match_close_at_def at_dollar_def)

text \<open>
  Claim C4. On every string each lambda, and the rewriter, returns a string and raises
  nothing. Where the opening tag is not at the start the opening substitution returns
  its input, and the rewriter does what the closing substitution alone does. Where the
  closing pattern finds no tag at the end the closing substitution returns its input,
  and the rewriter does what the opening substitution alone does.
\<close>

theorem rewriter_total:
  "(\<exists>t. lambda_open (PyStr s) = Inr (PyStr t)) \<and>
   (\<exists>t. lambda_close (PyStr s) = Inr (PyStr t)) \<and>
   (\<exists>t. rewriter (PyStr s) = Inr (PyStr t)) \<and>
   (\<not> prefix ''<span>'' s \<longrightarrow> lambda_open (PyStr s) = Inr (PyStr s)) \<and>
   (\<not> suffix ''</span>'' s \<and> \<not> suffix (''</span>'' @ [newline]) s \<longrightarrow>
      lambda_close (PyStr s) = Inr (PyStr s)) \<and>
   (\<not> prefix ''<span>'' s \<longrightarrow> rewriter (PyStr s) = lambda_close (PyStr s)) \<and>
   (\<not> suffix ''</span>'' s \<and> \<not> suffix (''</span>'' @ [newline]) s \<longrightarrow>
      rewriter (PyStr s) = lambda_open (PyStr s))"
proof (intro conjI impI)
  show "\<exists>t. lambda_open (PyStr s) = Inr (PyStr t)" by (simp add: lambda_open_str)
  show "\<exists>t. lambda_close (PyStr s) = Inr (PyStr t)" by (simp add: lambda_close_str)
  show "\<exists>t. rewriter (PyStr s) = Inr (PyStr t)" by (simp add: rewriter_str)
next
  assume "\<not> prefix ''<span>'' s"
  then show "lambda_open (PyStr s) = Inr (PyStr s)"
    by (simp add: lambda_open_str sub_open_from_0)
next
  assume "\<not> suffix ''</span>'' s \<and> \<not> suffix (''</span>'' @ [newline]) s"
  then show "lambda_close (PyStr s) = Inr (PyStr s)"
    by (simp add: lambda_close_str sub_close_nomatch)
next
  assume "\<not> prefix ''<span>'' s"
  then show "rewriter (PyStr s) = lambda_close (PyStr s)"
    by (simp add: rewriter_cases lambda_close_str)
next
  assume n: "\<not> suffix ''</span>'' s \<and> \<not> suffix (''</span>'' @ [newline]) s"
  show "rewriter (PyStr s) = lambda_open (PyStr s)"
  proof (cases "prefix ''<span>'' s")
    case True
    then obtain z where z: "s = ''<span>'' @ z" unfolding prefix_def by blast
    from n have "\<not> suffix ''</span>'' z" "\<not> suffix (''</span>'' @ [newline]) z"
      unfolding z by (meson suffix_appendI)+
    then have "sub_close_from z = z" by (rule sub_close_nomatch)
    then show ?thesis
      by (simp add: rewriter_cases lambda_open_str z match_open_at_def)
  next
    case False
    with n show ?thesis
      by (simp add: rewriter_cases lambda_open_str sub_open_from_0 sub_close_nomatch)
  qed
qed

theorem rewriter_total_witness:
  "\<not> prefix ''<span>'' ''Doe 2020</span>'' \<and>
   rewriter (PyStr ''Doe 2020</span>'') = Inr (PyStr ''Doe 2020</div>'') \<and>
   \<not> suffix ''</span>'' ''<span>Doe 2020'' \<and>
   \<not> suffix (''</span>'' @ [newline]) ''<span>Doe 2020'' \<and>
   rewriter (PyStr ''<span>Doe 2020'') = Inr (PyStr ''<div class=\"csl-entry\">Doe 2020'')"
proof -
  have h1: "\<not> prefix ''<span>'' ''Doe 2020</span>''" by simp
  have h2: "\<not> suffix ''</span>'' ''<span>Doe 2020'' \<and>
            \<not> suffix (''</span>'' @ [newline]) ''<span>Doe 2020''"
    by (simp add: suffix_to_prefix)
  have c: "lambda_close (PyStr ''Doe 2020</span>'') = Inr (PyStr ''Doe 2020</div>'')"
    by (simp add: lambda_close_def match_close_at_def at_dollar_def)
  have d: "lambda_open (PyStr ''<span>Doe 2020'') = Inr (PyStr ''<div class=\"csl-entry\">Doe 2020'')"
    by (simp add: lambda_open_def match_open_at_def)
  from rewriter_total [of "''Doe 2020</span>''"] rewriter_total [of "''<span>Doe 2020''"]
    h1 h2 c d show ?thesis by simp
qed

section \<open>Running the class bodies\<close>

text \<open>
  The reads of the environment leave the heap alone, and each returns what the
  variable and its parser give.
\<close>

lemmas exec_defs = bindE_def returnE_def raiseE_def

lemma env_str_Some: "ev name = Some raw \<Longrightarrow> env_str ev name h = (Inr raw, h)"
  by (simp add: env_str_def returnE_def)

lemma env_str_None: "ev name = None \<Longrightarrow> env_str ev name h = (Inl (EnvError name), h)"
  by (simp add: env_str_def raiseE_def)

lemma env_str_default_run:
  "env_str_default ev name d h = (Inr (case ev name of None \<Rightarrow> d | Some raw \<Rightarrow> raw), h)"
  by (simp add: env_str_default_def returnE_def split: option.splits)

lemma env_bool_default_Inr:
  "env_bool_default pf ev name d h = (Inr b, h') \<longleftrightarrow>
     h' = h \<and> (case ev name of None \<Rightarrow> b = d | Some raw \<Rightarrow> parse_bool pf raw = Some b)"
  by (auto simp: env_bool_default_def exec_defs split: option.splits)

lemma env_int_default_Inr:
  "env_int_default pf ev name d h = (Inr i, h') \<longleftrightarrow>
     h' = h \<and> (case ev name of None \<Rightarrow> i = d | Some raw \<Rightarrow> parse_int pf raw = Some i)"
  by (auto simp: env_int_default_def exec_defs split: option.splits)

lemma bindE_Inr:
  "bindE m f h = (Inr y, h') \<longleftrightarrow> (\<exists>x h1. m h = (Inr x, h1) \<and> f x h1 = (Inr y, h'))"
  by (auto simp: bindE_def split: prod.splits sum.splits)

lemma DevelopmentConfig_body_Inr:
  "DevelopmentConfig_body pf ev h = (Inr dev, h') \<longleftrightarrow>
     h' = h \<and>
     (\<exists>ad zs ze.
        dev = DevelopmentConfig_namespace ad zs ze
                (case ev ''LOGGING_LEVEL'' of None \<Rightarrow> ''DEBUG'' | Some raw \<Rightarrow> raw) \<and>
        (case ev ''ASSETS_DEBUG'' of None \<Rightarrow> ad = True | Some raw \<Rightarrow> parse_bool pf raw = Some ad) \<and>
        (case ev ''KERKO_ZOTERO_START'' of None \<Rightarrow> zs = 0 | Some raw \<Rightarrow> parse_int pf raw = Some zs) \<and>
        (case ev ''KERKO_ZOTERO_END'' of None \<Rightarrow> ze = 0 | Some raw \<Rightarrow> parse_int pf raw = Some ze))"
  unfolding DevelopmentConfig_body_def bindE_Inr env_bool_default_Inr env_int_default_Inr
    env_str_default_run returnE_def
  by auto

lemma ProductionConfig_body_Inr:
  "ProductionConfig_body pf ev h = (Inr prd, h') \<longleftrightarrow>
     h' = h \<and>
     (\<exists>ad.
        prd = ProductionConfig_namespace ad
                (case ev ''LOGGING_LEVEL'' of None \<Rightarrow> ''WARNING'' | Some raw \<Rightarrow> raw) \<and>
        (case ev ''ASSETS_DEBUG'' of None \<Rightarrow> ad = False | Some raw \<Rightarrow> parse_bool pf raw = Some ad))"
  unfolding ProductionConfig_body_def bindE_Inr env_bool_default_Inr
    env_str_default_run returnE_def
  by auto

lemma DevelopmentConfig_body_heap: "snd (DevelopmentConfig_body pf ev h) = h"
  by (simp add: DevelopmentConfig_body_def env_bool_default_def env_int_default_def
      env_str_default_def exec_defs split: option.splits)

lemma ProductionConfig_body_heap: "snd (ProductionConfig_body pf ev h) = h"
  by (simp add: ProductionConfig_body_def env_bool_default_def
      env_str_default_def exec_defs split: option.splits)

text \<open>
  A call on the composer that was allocated last is recorded on that composer.
\<close>

lemma add_field_run:
  "add_field (length h) spec (h @ [c]) =
     (Inr (), h @ [c\<lparr>added_fields := added_fields c @ [spec]\<rparr>])"
  by (simp add: add_field_def)

lemma add_facet_run:
  "add_facet (length h) spec (h @ [c]) =
     (Inr (), h @ [c\<lparr>added_facets := added_facets c @ [spec]\<rparr>])"
  by (simp add: add_facet_def)

lemma Config_registrations_run:
  "\<exists>c'. Config_registrations pf (length h) (h @ [c]) = (Inr (), h @ [c']) \<and>
        map key (added_fields c') = map key (added_fields c) @ [''data'', ''preview''] \<and>
        map facet_key (added_facets c') =
          map facet_key (added_facets c) @ [''facet_proposal'', ''facet_theme'', ''facet_location'']"
  by (simp add: Config_registrations_def bindE_def add_field_run add_facet_run)

text \<open>
  With the five required variables set, the body of \<^verbatim>\<open>Config\<close> returns its namespace and
  leaves one more object in the heap, the composer that was passed the two fields and
  the three facets.
\<close>

lemma Config_body_success:
  assumes "ev ''FLASK_APP'' = Some fa" and "ev ''SECRET_KEY'' = Some sk"
    and "ev ''KERKO_ZOTERO_API_KEY'' = Some ak" and "ev ''KERKO_ZOTERO_LIBRARY_ID'' = Some li"
    and "ev ''KERKO_ZOTERO_LIBRARY_TYPE'' = Some lt"
  shows "\<exists>c. Config_body pf ev h =
           (Inr (Config_namespace pf (Absolute (Parent (Path fa))) sk ak li lt
                   (case ev ''KERKO_DATA_DIR'' of
                      None \<Rightarrow> path_str pf (Join (Join (Absolute (Parent (Path fa))) ''data'') ''kerko'')
                    | Some raw \<Rightarrow> raw)
                   ''en'' (length h)),
            h @ [c]) \<and>
         map key (added_fields c) = [''data'', ''preview''] \<and>
         map facet_key (added_facets c) = [''facet_proposal'', ''facet_theme'', ''facet_location'']"
proof -
  let ?c0 = "\<lparr>whoosh_language = ''en'',
              exclude_default_facets = [''facet_tag'', ''facet_link'', ''facet_item_type''],
              exclude_default_fields = [''data''],
              default_child_include_re = ''^(_publish|publishPDF)$'',
              default_child_exclude_re = [], added_fields = [], added_facets = []\<rparr>"
  obtain c where c: "Config_registrations pf (length h) (h @ [?c0]) = (Inr (), h @ [c])"
    "map key (added_fields c) = map key (added_fields ?c0) @ [''data'', ''preview'']"
    "map facet_key (added_facets c) =
       map facet_key (added_facets ?c0) @ [''facet_proposal'', ''facet_theme'', ''facet_location'']"
    using Config_registrations_run [of pf h ?c0] by blast
  have "Config_body pf ev h =
           (Inr (Config_namespace pf (Absolute (Parent (Path fa))) sk ak li lt
                   (case ev ''KERKO_DATA_DIR'' of
                      None \<Rightarrow> path_str pf (Join (Join (Absolute (Parent (Path fa))) ''data'') ''kerko'')
                    | Some raw \<Rightarrow> raw)
                   ''en'' (length h)),
            h @ [c])"
    unfolding Config_body_def Let_def
    by (simp add: bindE_def env_str_Some assms env_str_default_run new_Composer_def c(1) returnE_def)
  with c(2,3) show ?thesis by simp
qed

text \<open>
  With one of them not set, the body raises for the first one that is missing, and
  the heap is as it was.
\<close>

lemma Config_body_missing:
  assumes "\<exists>v\<in>set required_variables. ev v = None"
  shows "Config_body pf ev h =
           (Inl (EnvError (hd (filter (\<lambda>v. ev v = None) required_variables))), h)"
proof (cases "ev ''FLASK_APP''")
  case None
  then show ?thesis
    by (simp add: Config_body_def bindE_def env_str_None required_variables_def)
next
  case fa: (Some a)
  show ?thesis
  proof (cases "ev ''SECRET_KEY''")
    case None
    then show ?thesis using fa
      by (simp add: Config_body_def bindE_def env_str_None env_str_Some required_variables_def)
  next
    case sk: (Some b)
    show ?thesis
    proof (cases "ev ''KERKO_ZOTERO_API_KEY''")
      case None
      then show ?thesis using fa sk
        by (simp add: Config_body_def bindE_def env_str_None env_str_Some required_variables_def)
    next
      case ak: (Some c)
      show ?thesis
      proof (cases "ev ''KERKO_ZOTERO_LIBRARY_ID''")
        case None
        then show ?thesis using fa sk ak
          by (simp add: Config_body_def bindE_def env_str_None env_str_Some required_variables_def)
      next
        case li: (Some d)
        show ?thesis
        proof (cases "ev ''KERKO_ZOTERO_LIBRARY_TYPE''")
          case None
          then show ?thesis using fa sk ak li
            by (simp add: Config_body_def bindE_def env_str_None env_str_Some required_variables_def)
        next
          case (Some e)
          with assms fa sk ak li show ?thesis by (simp add: required_variables_def)
        qed
      qed
    qed
  qed
qed

lemma Config_body_Inr:
  assumes "Config_body pf ev h = (Inr cfg, h')"
  shows "\<exists>fa sk ak li lt c.
           ev ''FLASK_APP'' = Some fa \<and> ev ''SECRET_KEY'' = Some sk \<and>
           ev ''KERKO_ZOTERO_API_KEY'' = Some ak \<and> ev ''KERKO_ZOTERO_LIBRARY_ID'' = Some li \<and>
           ev ''KERKO_ZOTERO_LIBRARY_TYPE'' = Some lt \<and>
           cfg = Config_namespace pf (Absolute (Parent (Path fa))) sk ak li lt
                   (case ev ''KERKO_DATA_DIR'' of
                      None \<Rightarrow> path_str pf (Join (Join (Absolute (Parent (Path fa))) ''data'') ''kerko'')
                    | Some raw \<Rightarrow> raw)
                   ''en'' (length h) \<and>
           h' = h @ [c] \<and>
           map key (added_fields c) = [''data'', ''preview''] \<and>
           map facet_key (added_facets c) =
             [''facet_proposal'', ''facet_theme'', ''facet_location'']"
proof -
  have "\<not> (\<exists>v\<in>set required_variables. ev v = None)"
  proof
    assume e: "\<exists>v\<in>set required_variables. ev v = None"
    from Config_body_missing [OF e, of pf h] assms show False by simp
  qed
  then obtain fa sk ak li lt where v: "ev ''FLASK_APP'' = Some fa" "ev ''SECRET_KEY'' = Some sk"
    "ev ''KERKO_ZOTERO_API_KEY'' = Some ak" "ev ''KERKO_ZOTERO_LIBRARY_ID'' = Some li"
    "ev ''KERKO_ZOTERO_LIBRARY_TYPE'' = Some lt"
    by (auto simp: required_variables_def)
  from Config_body_success [OF v, of pf h] assms v show ?thesis by auto
qed

lemma load_module_Inr:
  assumes "load_module pf ev h = (Inr m, h')"
  shows "\<exists>cfg dev prd.
           Config_body pf ev h = (Inr cfg, h') \<and>
           DevelopmentConfig_body pf ev h' = (Inr dev, h') \<and>
           ProductionConfig_body pf ev h' = (Inr prd, h') \<and>
           m = \<lparr>Config = [cfg], DevelopmentConfig = [dev, cfg], ProductionConfig = [prd, cfg],
                CONFIGS = [(''development'', [dev, cfg]), (''production'', [prd, cfg])]\<rparr>"
proof -
  from assms obtain cfg h1 dev h2 prd h3 where
    a: "Config_body pf ev h = (Inr cfg, h1)"
      "DevelopmentConfig_body pf ev h1 = (Inr dev, h2)"
      "ProductionConfig_body pf ev h2 = (Inr prd, h3)"
      "returnE \<lparr>Config = [cfg], DevelopmentConfig = [dev, cfg], ProductionConfig = [prd, cfg],
                CONFIGS = [(''development'', [dev, cfg]), (''production'', [prd, cfg])]\<rparr> h3 =
         (Inr m, h')"
    unfolding load_module_def bindE_Inr by blast
  have "h2 = h1" using DevelopmentConfig_body_heap [of pf ev h1] a(2) by simp
  moreover have "h3 = h2" using ProductionConfig_body_heap [of pf ev h2] a(3) by simp
  moreover have "h' = h3" using a(4) by (simp add: returnE_def)
  ultimately show ?thesis using a by (auto simp: returnE_def)
qed

lemma load_module_missing:
  assumes "\<exists>v\<in>set required_variables. ev v = None"
  shows "load_module pf ev h =
           (Inl (EnvError (hd (filter (\<lambda>v. ev v = None) required_variables))), h)"
  by (simp add: load_module_def bindE_def Config_body_missing [OF assms])

text \<open>
  The load succeeds when the required variables are set and the parsers accept the
  optional ones that are set.
\<close>

lemma load_module_success:
  assumes "ev ''FLASK_APP'' = Some fa" and "ev ''SECRET_KEY'' = Some sk"
    and "ev ''KERKO_ZOTERO_API_KEY'' = Some ak" and "ev ''KERKO_ZOTERO_LIBRARY_ID'' = Some li"
    and "ev ''KERKO_ZOTERO_LIBRARY_TYPE'' = Some lt"
    and "case ev ''ASSETS_DEBUG'' of None \<Rightarrow> True | Some raw \<Rightarrow> parse_bool pf raw \<noteq> None"
    and "case ev ''KERKO_ZOTERO_START'' of None \<Rightarrow> True | Some raw \<Rightarrow> parse_int pf raw \<noteq> None"
    and "case ev ''KERKO_ZOTERO_END'' of None \<Rightarrow> True | Some raw \<Rightarrow> parse_int pf raw \<noteq> None"
  shows "\<exists>m h'. load_module pf ev h = (Inr m, h')"
proof -
  from Config_body_success [OF assms(1-5), of pf h]
  obtain cfg h1 where c: "Config_body pf ev h = (Inr cfg, h1)" by blast
  from assms(6-8) obtain dev where d: "DevelopmentConfig_body pf ev h1 = (Inr dev, h1)"
    unfolding DevelopmentConfig_body_Inr by (auto split: option.splits)
  from assms(6) obtain prd where p: "ProductionConfig_body pf ev h1 = (Inr prd, h1)"
    unfolding ProductionConfig_body_Inr by (auto split: option.splits)
  show ?thesis
    by (simp add: load_module_def bindE_def c d p returnE_def)
qed

lemma load_required_only:
  "load_module sample_platform required_only_env [] =
     (Inr (loaded sample_platform required_only_env),
      snd (load_module sample_platform required_only_env []))"
proof -
  have "\<exists>m h'. load_module sample_platform required_only_env [] = (Inr m, h')"
    by (rule load_module_success [where fa = "''app''" and sk = "''s3cr3t''" and ak = "''k''"
          and li = "''42''" and lt = "''group''"])
      (simp_all add: required_only_env_def)
  then show ?thesis by (auto simp: loaded_def)
qed

lemma load_full:
  "load_module sample_platform full_env [] =
     (Inr (loaded sample_platform full_env), snd (load_module sample_platform full_env []))"
proof -
  have "\<exists>m h'. load_module sample_platform full_env [] = (Inr m, h')"
    by (rule load_module_success [where fa = "''app''" and sk = "''s3cr3t''" and ak = "''k''"
          and li = "''42''" and lt = "''group''"])
      (simp_all add: full_env_def sample_platform_def)
  then show ?thesis by (auto simp: loaded_def)
qed

text \<open>The names each class body binds; no name of a subclass is a name of the base.\<close>

lemma Config_namespace_names:
  "map fst (Config_namespace pf ad sk ak li lt dd wl a) =
     [''app_dir'', ''SECRET_KEY'', ''KERKO_ZOTERO_API_KEY'', ''KERKO_ZOTERO_LIBRARY_ID'',
      ''KERKO_ZOTERO_LIBRARY_TYPE'', ''KERKO_DATA_DIR'', ''LOGGING_HANDLER'',
      ''EXPLAIN_TEMPLATE_LOADING'', ''LIBSASS_INCLUDES'', ''BABEL_DEFAULT_LOCALE'',
      ''KERKO_WHOOSH_LANGUAGE'', ''KERKO_ZOTERO_LOCALE'', ''HOME_URL'', ''HOME_TITLE'',
      ''NAV_TITLE'', ''KERKO_TITLE'', ''EVED_IO_TITLE'', ''EVED_IO_LINK'',
      ''KERKO_PRINT_ITEM_LINK'', ''KERKO_PRINT_CITATIONS_LINK'', ''KERKO_RESULTS_FIELDS'',
      ''KERKO_RESULTS_ABSTRACTS'', ''KERKO_RESULTS_ABSTRACTS_MAX_LENGTH'',
      ''KERKO_RESULTS_ABSTRACTS_MAX_LENGTH_LEEWAY'', ''KERKO_TEMPLATE_BASE'',
      ''KERKO_TEMPLATE_LAYOUT'', ''KERKO_TEMPLATE_SEARCH'', ''KERKO_TEMPLATE_SEARCH_ITEM'',
      ''KERKO_TEMPLATE_ITEM'', ''KERKO_DOWNLOAD_ATTACHMENT_NEW_WINDOW'',
      ''KERKO_RELATIONS_INITIAL_LIMIT'', ''KERKO_CSL_STYLE'', ''KERKO_COMPOSER'']"
  by (simp add: Config_namespace_def Let_def)

lemma DevelopmentConfig_namespace_names:
  "map fst (DevelopmentConfig_namespace ad zs ze ll) =
     [''CONFIG'', ''DEBUG'', ''ASSETS_DEBUG'', ''KERKO_ZOTERO_START'', ''KERKO_ZOTERO_END'',
      ''LIBSASS_STYLE'', ''LOGGING_LEVEL'']"
  by (simp add: DevelopmentConfig_namespace_def)

lemma ProductionConfig_namespace_names:
  "map fst (ProductionConfig_namespace ad ll) =
     [''CONFIG'', ''DEBUG'', ''ASSETS_DEBUG'', ''ASSETS_AUTO_BUILD'', ''LOGGING_LEVEL'',
      ''GOOGLE_ANALYTICS_ID'', ''LIBSASS_STYLE'']"
  by (simp add: ProductionConfig_namespace_def)

lemma map_of_None_iff: "map_of ns n = None \<longleftrightarrow> n \<notin> set (map fst ns)"
  by (simp add: map_of_eq_None_iff)

lemma Config_names_not_Development:
  "n \<in> set (map fst (Config_namespace pf ad sk ak li lt dd wl a)) \<Longrightarrow>
   n \<notin> set (map fst (DevelopmentConfig_namespace b zs ze ll))"
  unfolding Config_namespace_names DevelopmentConfig_namespace_names by auto

lemma Config_names_not_Production:
  "n \<in> set (map fst (Config_namespace pf ad sk ak li lt dd wl a)) \<Longrightarrow>
   n \<notin> set (map fst (ProductionConfig_namespace b ll))"
  unfolding Config_namespace_names ProductionConfig_namespace_names by auto

lemma class_getattr_inherited:
  "class_getattr [own, base] n =
     (if n \<in> set (map fst own) then map_of own n else map_of base n)"
proof (cases "map_of own n")
  case None
  then have "n \<notin> set (map fst own)" by (simp add: map_of_eq_None_iff)
  with None show ?thesis by (simp split: option.splits)
next
  case (Some v)
  then have "n \<in> set (map fst own)" by (metis map_of_None_iff option.distinct(1))
  with Some show ?thesis by simp
qed

text \<open>What a successful load has read, and what it returns.\<close>

lemma load_module_cases:
  assumes "load_module pf ev h = (Inr m, h')"
  obtains fa sk ak li lt c ad zs ze pad cfg dev prd where
    "ev ''FLASK_APP'' = Some fa" "ev ''SECRET_KEY'' = Some sk"
    "ev ''KERKO_ZOTERO_API_KEY'' = Some ak" "ev ''KERKO_ZOTERO_LIBRARY_ID'' = Some li"
    "ev ''KERKO_ZOTERO_LIBRARY_TYPE'' = Some lt"
    "cfg = Config_namespace pf (Absolute (Parent (Path fa))) sk ak li lt
             (case ev ''KERKO_DATA_DIR'' of
                None \<Rightarrow> path_str pf (Join (Join (Absolute (Parent (Path fa))) ''data'') ''kerko'')
              | Some raw \<Rightarrow> raw)
             ''en'' (length h)"
    "dev = DevelopmentConfig_namespace ad zs ze
             (case ev ''LOGGING_LEVEL'' of None \<Rightarrow> ''DEBUG'' | Some raw \<Rightarrow> raw)"
    "prd = ProductionConfig_namespace pad
             (case ev ''LOGGING_LEVEL'' of None \<Rightarrow> ''WARNING'' | Some raw \<Rightarrow> raw)"
    "case ev ''ASSETS_DEBUG'' of None \<Rightarrow> ad = True | Some raw \<Rightarrow> parse_bool pf raw = Some ad"
    "case ev ''ASSETS_DEBUG'' of None \<Rightarrow> pad = False | Some raw \<Rightarrow> parse_bool pf raw = Some pad"
    "case ev ''KERKO_ZOTERO_START'' of None \<Rightarrow> zs = 0 | Some raw \<Rightarrow> parse_int pf raw = Some zs"
    "case ev ''KERKO_ZOTERO_END'' of None \<Rightarrow> ze = 0 | Some raw \<Rightarrow> parse_int pf raw = Some ze"
    "m = \<lparr>Config = [cfg], DevelopmentConfig = [dev, cfg], ProductionConfig = [prd, cfg],
          CONFIGS = [(''development'', [dev, cfg]), (''production'', [prd, cfg])]\<rparr>"
    "Config_body pf ev h = (Inr cfg, h')"
    "h' = h @ [c]"
    "map key (added_fields c) = [''data'', ''preview'']"
    "map facet_key (added_facets c) = [''facet_proposal'', ''facet_theme'', ''facet_location'']"
proof -
  from load_module_Inr [OF assms] obtain cfg dev prd where
    l: "Config_body pf ev h = (Inr cfg, h')"
      "DevelopmentConfig_body pf ev h' = (Inr dev, h')"
      "ProductionConfig_body pf ev h' = (Inr prd, h')"
      "m = \<lparr>Config = [cfg], DevelopmentConfig = [dev, cfg], ProductionConfig = [prd, cfg],
            CONFIGS = [(''development'', [dev, cfg]), (''production'', [prd, cfg])]\<rparr>"
    by blast
  from Config_body_Inr [OF l(1)] obtain fa sk ak li lt c where
    c: "ev ''FLASK_APP'' = Some fa" "ev ''SECRET_KEY'' = Some sk"
      "ev ''KERKO_ZOTERO_API_KEY'' = Some ak" "ev ''KERKO_ZOTERO_LIBRARY_ID'' = Some li"
      "ev ''KERKO_ZOTERO_LIBRARY_TYPE'' = Some lt"
      "cfg = Config_namespace pf (Absolute (Parent (Path fa))) sk ak li lt
             (case ev ''KERKO_DATA_DIR'' of
                None \<Rightarrow> path_str pf (Join (Join (Absolute (Parent (Path fa))) ''data'') ''kerko'')
              | Some raw \<Rightarrow> raw)
             ''en'' (length h)"
      "h' = h @ [c]"
      "map key (added_fields c) = [''data'', ''preview'']"
      "map facet_key (added_facets c) = [''facet_proposal'', ''facet_theme'', ''facet_location'']"
    by (elim exE conjE) (rule that)
  from l(2) obtain ad zs ze where
    d: "dev = DevelopmentConfig_namespace ad zs ze
             (case ev ''LOGGING_LEVEL'' of None \<Rightarrow> ''DEBUG'' | Some raw \<Rightarrow> raw)"
      "case ev ''ASSETS_DEBUG'' of None \<Rightarrow> ad = True | Some raw \<Rightarrow> parse_bool pf raw = Some ad"
      "case ev ''KERKO_ZOTERO_START'' of None \<Rightarrow> zs = 0 | Some raw \<Rightarrow> parse_int pf raw = Some zs"
      "case ev ''KERKO_ZOTERO_END'' of None \<Rightarrow> ze = 0 | Some raw \<Rightarrow> parse_int pf raw = Some ze"
    unfolding DevelopmentConfig_body_Inr by (elim exE conjE) (rule that)
  from l(3) obtain pad where
    p: "prd = ProductionConfig_namespace pad
             (case ev ''LOGGING_LEVEL'' of None \<Rightarrow> ''WARNING'' | Some raw \<Rightarrow> raw)"
      "case ev ''ASSETS_DEBUG'' of None \<Rightarrow> pad = False | Some raw \<Rightarrow> parse_bool pf raw = Some pad"
    unfolding ProductionConfig_body_Inr by (elim exE conjE) (rule that)
  show thesis
    by (rule that [OF c(1-6) d(1) p(1) d(2) p(2) d(3,4) l(4) l(1) c(7-9)])
qed

lemmas namespace_defs =
  Config_namespace_def DevelopmentConfig_namespace_def ProductionConfig_namespace_def Let_def

section \<open>The claims about the configuration\<close>

text \<open>
  Claim C5. After a successful load: \<^verbatim>\<open>KERKO_DATA_DIR\<close> is the text of the variable when it
  is set, and otherwise the string of the application directory (the absolute parent of
  the path in \<^verbatim>\<open>FLASK_APP\<close>) joined with \<^verbatim>\<open>data\<close> and \<^verbatim>\<open>kerko\<close>, in all three classes. In the
  development configuration \<^verbatim>\<open>ASSETS_DEBUG\<close> defaults to \<open>True\<close>, \<^verbatim>\<open>KERKO_ZOTERO_START\<close> and
  \<^verbatim>\<open>KERKO_ZOTERO_END\<close> to 0 and \<^verbatim>\<open>LOGGING_LEVEL\<close> to \<^verbatim>\<open>DEBUG\<close>; in the production
  configuration \<^verbatim>\<open>ASSETS_DEBUG\<close> defaults to \<open>False\<close> and \<^verbatim>\<open>LOGGING_LEVEL\<close> to \<^verbatim>\<open>WARNING\<close>.
  A variable that is set gives its parsed value.
\<close>

theorem configuration_defaults:
  assumes "load_module pf ev h = (Inr m, h')"
  shows "(\<exists>fa. ev ''FLASK_APP'' = Some fa \<and>
            class_getattr (Config m) ''app_dir'' = Some (PyPath (Absolute (Parent (Path fa)))) \<and>
            (\<forall>cfg \<in> {Config m, DevelopmentConfig m, ProductionConfig m}.
               class_getattr cfg ''KERKO_DATA_DIR'' =
                 Some (PyStr (case ev ''KERKO_DATA_DIR'' of
                                None \<Rightarrow> path_str pf
                                  (Join (Join (Absolute (Parent (Path fa))) ''data'') ''kerko'')
                              | Some raw \<Rightarrow> raw)))) \<and>
         (case ev ''ASSETS_DEBUG'' of
            None \<Rightarrow> class_getattr (DevelopmentConfig m) ''ASSETS_DEBUG'' = Some (PyBool True) \<and>
                    class_getattr (ProductionConfig m) ''ASSETS_DEBUG'' = Some (PyBool False)
          | Some raw \<Rightarrow>
              (\<exists>b. parse_bool pf raw = Some b \<and>
                   class_getattr (DevelopmentConfig m) ''ASSETS_DEBUG'' = Some (PyBool b) \<and>
                   class_getattr (ProductionConfig m) ''ASSETS_DEBUG'' = Some (PyBool b))) \<and>
         (case ev ''KERKO_ZOTERO_START'' of
            None \<Rightarrow> class_getattr (DevelopmentConfig m) ''KERKO_ZOTERO_START'' = Some (PyInt 0)
          | Some raw \<Rightarrow>
              (\<exists>i. parse_int pf raw = Some i \<and>
                   class_getattr (DevelopmentConfig m) ''KERKO_ZOTERO_START'' = Some (PyInt i))) \<and>
         (case ev ''KERKO_ZOTERO_END'' of
            None \<Rightarrow> class_getattr (DevelopmentConfig m) ''KERKO_ZOTERO_END'' = Some (PyInt 0)
          | Some raw \<Rightarrow>
              (\<exists>i. parse_int pf raw = Some i \<and>
                   class_getattr (DevelopmentConfig m) ''KERKO_ZOTERO_END'' = Some (PyInt i))) \<and>
         class_getattr (DevelopmentConfig m) ''LOGGING_LEVEL'' =
           Some (PyStr (case ev ''LOGGING_LEVEL'' of None \<Rightarrow> ''DEBUG'' | Some raw \<Rightarrow> raw)) \<and>
         class_getattr (ProductionConfig m) ''LOGGING_LEVEL'' =
           Some (PyStr (case ev ''LOGGING_LEVEL'' of None \<Rightarrow> ''WARNING'' | Some raw \<Rightarrow> raw))"
proof -
  from assms obtain fa sk ak li lt c ad zs ze pad cfg dev prd where
    f: "ev ''FLASK_APP'' = Some fa"
    and cfg: "cfg = Config_namespace pf (Absolute (Parent (Path fa))) sk ak li lt
             (case ev ''KERKO_DATA_DIR'' of
                None \<Rightarrow> path_str pf (Join (Join (Absolute (Parent (Path fa))) ''data'') ''kerko'')
              | Some raw \<Rightarrow> raw)
             ''en'' (length h)"
    and dev: "dev = DevelopmentConfig_namespace ad zs ze
             (case ev ''LOGGING_LEVEL'' of None \<Rightarrow> ''DEBUG'' | Some raw \<Rightarrow> raw)"
    and prd: "prd = ProductionConfig_namespace pad
             (case ev ''LOGGING_LEVEL'' of None \<Rightarrow> ''WARNING'' | Some raw \<Rightarrow> raw)"
    and ad: "case ev ''ASSETS_DEBUG'' of None \<Rightarrow> ad = True | Some raw \<Rightarrow> parse_bool pf raw = Some ad"
    and pad: "case ev ''ASSETS_DEBUG'' of None \<Rightarrow> pad = False | Some raw \<Rightarrow> parse_bool pf raw = Some pad"
    and zs: "case ev ''KERKO_ZOTERO_START'' of None \<Rightarrow> zs = 0 | Some raw \<Rightarrow> parse_int pf raw = Some zs"
    and ze: "case ev ''KERKO_ZOTERO_END'' of None \<Rightarrow> ze = 0 | Some raw \<Rightarrow> parse_int pf raw = Some ze"
    and m: "m = \<lparr>Config = [cfg], DevelopmentConfig = [dev, cfg], ProductionConfig = [prd, cfg],
          CONFIGS = [(''development'', [dev, cfg]), (''production'', [prd, cfg])]\<rparr>"
    by (rule load_module_cases)
  have 1: "class_getattr (Config m) ''app_dir'' = Some (PyPath (Absolute (Parent (Path fa))))"
    by (simp add: m cfg namespace_defs)
  have 2: "\<forall>k \<in> {Config m, DevelopmentConfig m, ProductionConfig m}.
               class_getattr k ''KERKO_DATA_DIR'' =
                 Some (PyStr (case ev ''KERKO_DATA_DIR'' of
                                None \<Rightarrow> path_str pf
                                  (Join (Join (Absolute (Parent (Path fa))) ''data'') ''kerko'')
                              | Some raw \<Rightarrow> raw))"
    by (simp add: m cfg dev prd namespace_defs)
  have 3: "class_getattr (DevelopmentConfig m) ''ASSETS_DEBUG'' = Some (PyBool ad)"
    "class_getattr (ProductionConfig m) ''ASSETS_DEBUG'' = Some (PyBool pad)"
    "class_getattr (DevelopmentConfig m) ''KERKO_ZOTERO_START'' = Some (PyInt zs)"
    "class_getattr (DevelopmentConfig m) ''KERKO_ZOTERO_END'' = Some (PyInt ze)"
    by (simp_all add: m dev prd namespace_defs)
  have 4: "class_getattr (DevelopmentConfig m) ''LOGGING_LEVEL'' =
           Some (PyStr (case ev ''LOGGING_LEVEL'' of None \<Rightarrow> ''DEBUG'' | Some raw \<Rightarrow> raw))"
    "class_getattr (ProductionConfig m) ''LOGGING_LEVEL'' =
           Some (PyStr (case ev ''LOGGING_LEVEL'' of None \<Rightarrow> ''WARNING'' | Some raw \<Rightarrow> raw))"
    by (simp_all add: m dev prd namespace_defs)
  from ad pad have 5: "case ev ''ASSETS_DEBUG'' of
            None \<Rightarrow> class_getattr (DevelopmentConfig m) ''ASSETS_DEBUG'' = Some (PyBool True) \<and>
                    class_getattr (ProductionConfig m) ''ASSETS_DEBUG'' = Some (PyBool False)
          | Some raw \<Rightarrow>
              (\<exists>b. parse_bool pf raw = Some b \<and>
                   class_getattr (DevelopmentConfig m) ''ASSETS_DEBUG'' = Some (PyBool b) \<and>
                   class_getattr (ProductionConfig m) ''ASSETS_DEBUG'' = Some (PyBool b))"
    unfolding 3 by (auto split: option.splits)
  from zs have 6: "case ev ''KERKO_ZOTERO_START'' of
            None \<Rightarrow> class_getattr (DevelopmentConfig m) ''KERKO_ZOTERO_START'' = Some (PyInt 0)
          | Some raw \<Rightarrow>
              (\<exists>i. parse_int pf raw = Some i \<and>
                   class_getattr (DevelopmentConfig m) ''KERKO_ZOTERO_START'' = Some (PyInt i))"
    unfolding 3 by (auto split: option.splits)
  from ze have 7: "case ev ''KERKO_ZOTERO_END'' of
            None \<Rightarrow> class_getattr (DevelopmentConfig m) ''KERKO_ZOTERO_END'' = Some (PyInt 0)
          | Some raw \<Rightarrow>
              (\<exists>i. parse_int pf raw = Some i \<and>
                   class_getattr (DevelopmentConfig m) ''KERKO_ZOTERO_END'' = Some (PyInt i))"
    unfolding 3 by (auto split: option.splits)
  from f 1 2 have 8: "\<exists>fa. ev ''FLASK_APP'' = Some fa \<and>
            class_getattr (Config m) ''app_dir'' = Some (PyPath (Absolute (Parent (Path fa)))) \<and>
            (\<forall>cfg \<in> {Config m, DevelopmentConfig m, ProductionConfig m}.
               class_getattr cfg ''KERKO_DATA_DIR'' =
                 Some (PyStr (case ev ''KERKO_DATA_DIR'' of
                                None \<Rightarrow> path_str pf
                                  (Join (Join (Absolute (Parent (Path fa))) ''data'') ''kerko'')
                              | Some raw \<Rightarrow> raw)))"
    by blast
  from 8 5 6 7 4 show ?thesis by (intro conjI)
qed

theorem configuration_defaults_witness:
  "load_module sample_platform required_only_env [] =
     (Inr (loaded sample_platform required_only_env),
      snd (load_module sample_platform required_only_env [])) \<and>
   class_getattr (Config (loaded sample_platform required_only_env)) ''KERKO_DATA_DIR'' =
     Some (PyStr ''/srv/app/../data/kerko'') \<and>
   class_getattr (DevelopmentConfig (loaded sample_platform required_only_env)) ''ASSETS_DEBUG'' =
     Some (PyBool True) \<and>
   class_getattr (DevelopmentConfig (loaded sample_platform required_only_env)) ''KERKO_ZOTERO_START'' =
     Some (PyInt 0) \<and>
   class_getattr (DevelopmentConfig (loaded sample_platform required_only_env)) ''KERKO_ZOTERO_END'' =
     Some (PyInt 0) \<and>
   class_getattr (DevelopmentConfig (loaded sample_platform required_only_env)) ''LOGGING_LEVEL'' =
     Some (PyStr ''DEBUG'') \<and>
   class_getattr (ProductionConfig (loaded sample_platform required_only_env)) ''ASSETS_DEBUG'' =
     Some (PyBool False) \<and>
   class_getattr (ProductionConfig (loaded sample_platform required_only_env)) ''LOGGING_LEVEL'' =
     Some (PyStr ''WARNING'') \<and>
   load_module sample_platform full_env [] =
     (Inr (loaded sample_platform full_env), snd (load_module sample_platform full_env [])) \<and>
   class_getattr (Config (loaded sample_platform full_env)) ''KERKO_DATA_DIR'' =
     Some (PyStr ''/data'') \<and>
   class_getattr (DevelopmentConfig (loaded sample_platform full_env)) ''ASSETS_DEBUG'' =
     Some (PyBool False) \<and>
   class_getattr (DevelopmentConfig (loaded sample_platform full_env)) ''KERKO_ZOTERO_START'' =
     Some (PyInt 100) \<and>
   class_getattr (DevelopmentConfig (loaded sample_platform full_env)) ''LOGGING_LEVEL'' =
     Some (PyStr ''INFO'') \<and>
   class_getattr (ProductionConfig (loaded sample_platform full_env)) ''LOGGING_LEVEL'' =
     Some (PyStr ''INFO'')"
proof -
  have ro: "required_only_env ''FLASK_APP'' = Some ''app''"
    "required_only_env ''KERKO_DATA_DIR'' = None" "required_only_env ''ASSETS_DEBUG'' = None"
    "required_only_env ''KERKO_ZOTERO_START'' = None"
    "required_only_env ''KERKO_ZOTERO_END'' = None" "required_only_env ''LOGGING_LEVEL'' = None"
    by (simp_all add: required_only_env_def)
  have fe: "full_env ''FLASK_APP'' = Some ''app''" "full_env ''KERKO_DATA_DIR'' = Some ''/data''"
    "full_env ''ASSETS_DEBUG'' = Some ''false''" "full_env ''KERKO_ZOTERO_START'' = Some ''100''"
    "full_env ''KERKO_ZOTERO_END'' = Some ''0''" "full_env ''LOGGING_LEVEL'' = Some ''INFO''"
    by (simp_all add: full_env_def)
  have sp: "path_str sample_platform = sample_path_str"
    "parse_bool sample_platform ''false'' = Some False"
    "parse_int sample_platform ''100'' = Some 100" "parse_int sample_platform ''0'' = Some 0"
    by (simp_all add: sample_platform_def)
  from configuration_defaults [OF load_required_only] configuration_defaults [OF load_full]
    load_required_only load_full
  show ?thesis by (auto simp add: ro fe sp)
qed

text \<open>
  Claim C6. If one of the five required variables is not set, the body of \<^verbatim>\<open>Config\<close>
  raises the error of the first one that is missing, and so does the load of the
  module. The heap is the one the load started with: the composer has not been
  created, nothing has been registered, and no class or \<^verbatim>\<open>CONFIGS\<close> is returned.
\<close>

theorem missing_required_variable_fails:
  assumes "v \<in> set required_variables" and "ev v = None"
  shows "\<exists>w \<in> set required_variables.
           ev w = None \<and> w = hd (filter (\<lambda>v. ev v = None) required_variables) \<and>
           Config_body pf ev h = (Inl (EnvError w), h) \<and>
           load_module pf ev h = (Inl (EnvError w), h)"
proof -
  let ?w = "hd (filter (\<lambda>v. ev v = None) required_variables)"
  from assms have e: "\<exists>v\<in>set required_variables. ev v = None" by blast
  from assms have "filter (\<lambda>v. ev v = None) required_variables \<noteq> []"
    by (auto simp: filter_empty_conv)
  then have "?w \<in> set (filter (\<lambda>v. ev v = None) required_variables)" by (rule hd_in_set)
  then have "?w \<in> set required_variables" "ev ?w = None" by simp_all
  with Config_body_missing [OF e, of pf h] load_module_missing [OF e, of pf h]
  show ?thesis by blast
qed

theorem missing_required_variable_fails_witness:
  "''SECRET_KEY'' \<in> set required_variables \<and> no_secret_env ''SECRET_KEY'' = None \<and>
   Config_body sample_platform no_secret_env [] = (Inl (EnvError ''SECRET_KEY''), []) \<and>
   load_module sample_platform no_secret_env [] = (Inl (EnvError ''SECRET_KEY''), [])"
proof -
  have a: "''SECRET_KEY'' \<in> set required_variables" by (simp add: required_variables_def)
  have b: "no_secret_env ''SECRET_KEY'' = None" by (simp add: no_secret_env_def)
  have c: "hd (filter (\<lambda>v. no_secret_env v = None) required_variables) = ''SECRET_KEY''"
    by (simp add: no_secret_env_def required_variables_def)
  from missing_required_variable_fails
    [where v = "''SECRET_KEY''" and ev = no_secret_env and pf = sample_platform and h = "[]"] a b
  show ?thesis unfolding c by simp
qed

text \<open>
  Claim C7, as amended. After a successful load, both the development and the
  production configuration hold the text of \<^verbatim>\<open>FLASK_APP\<close> (as the path of the application
  directory), of \<^verbatim>\<open>SECRET_KEY\<close>, \<^verbatim>\<open>KERKO_ZOTERO_API_KEY\<close>, \<^verbatim>\<open>KERKO_ZOTERO_LIBRARY_ID\<close> and
  \<^verbatim>\<open>KERKO_ZOTERO_LIBRARY_TYPE\<close>, the text of \<^verbatim>\<open>KERKO_DATA_DIR\<close> and of \<^verbatim>\<open>LOGGING_LEVEL\<close> when
  set, and the boolean parsed from \<^verbatim>\<open>ASSETS_DEBUG\<close> when set. The development
  configuration holds the integers parsed from \<^verbatim>\<open>KERKO_ZOTERO_START\<close> and
  \<^verbatim>\<open>KERKO_ZOTERO_END\<close> when set; the production configuration has no attribute of
  either name.
\<close>

theorem typed_parse_of_variables:
  assumes "load_module pf ev h = (Inr m, h')"
  shows "(\<forall>k \<in> {DevelopmentConfig m, ProductionConfig m}.
            (\<exists>raw. ev ''FLASK_APP'' = Some raw \<and>
                class_getattr k ''app_dir'' = Some (PyPath (Absolute (Parent (Path raw))))) \<and>
            (\<exists>raw. ev ''SECRET_KEY'' = Some raw \<and>
                class_getattr k ''SECRET_KEY'' = Some (PyStr raw)) \<and>
            (\<exists>raw. ev ''KERKO_ZOTERO_API_KEY'' = Some raw \<and>
                class_getattr k ''KERKO_ZOTERO_API_KEY'' = Some (PyStr raw)) \<and>
            (\<exists>raw. ev ''KERKO_ZOTERO_LIBRARY_ID'' = Some raw \<and>
                class_getattr k ''KERKO_ZOTERO_LIBRARY_ID'' = Some (PyStr raw)) \<and>
            (\<exists>raw. ev ''KERKO_ZOTERO_LIBRARY_TYPE'' = Some raw \<and>
                class_getattr k ''KERKO_ZOTERO_LIBRARY_TYPE'' = Some (PyStr raw)) \<and>
            (\<forall>raw. ev ''KERKO_DATA_DIR'' = Some raw \<longrightarrow>
                class_getattr k ''KERKO_DATA_DIR'' = Some (PyStr raw)) \<and>
            (\<forall>raw. ev ''LOGGING_LEVEL'' = Some raw \<longrightarrow>
                class_getattr k ''LOGGING_LEVEL'' = Some (PyStr raw)) \<and>
            (\<forall>raw. ev ''ASSETS_DEBUG'' = Some raw \<longrightarrow>
                (\<exists>b. parse_bool pf raw = Some b \<and>
                     class_getattr k ''ASSETS_DEBUG'' = Some (PyBool b)))) \<and>
         (\<forall>raw. ev ''KERKO_ZOTERO_START'' = Some raw \<longrightarrow>
            (\<exists>i. parse_int pf raw = Some i \<and>
                 class_getattr (DevelopmentConfig m) ''KERKO_ZOTERO_START'' = Some (PyInt i))) \<and>
         (\<forall>raw. ev ''KERKO_ZOTERO_END'' = Some raw \<longrightarrow>
            (\<exists>i. parse_int pf raw = Some i \<and>
                 class_getattr (DevelopmentConfig m) ''KERKO_ZOTERO_END'' = Some (PyInt i))) \<and>
         class_getattr (ProductionConfig m) ''KERKO_ZOTERO_START'' = None \<and>
         class_getattr (ProductionConfig m) ''KERKO_ZOTERO_END'' = None"
proof -
  from assms obtain fa sk ak li lt c ad zs ze pad cfg dev prd where
    e: "ev ''FLASK_APP'' = Some fa" "ev ''SECRET_KEY'' = Some sk"
      "ev ''KERKO_ZOTERO_API_KEY'' = Some ak" "ev ''KERKO_ZOTERO_LIBRARY_ID'' = Some li"
      "ev ''KERKO_ZOTERO_LIBRARY_TYPE'' = Some lt"
    and cfg: "cfg = Config_namespace pf (Absolute (Parent (Path fa))) sk ak li lt
             (case ev ''KERKO_DATA_DIR'' of
                None \<Rightarrow> path_str pf (Join (Join (Absolute (Parent (Path fa))) ''data'') ''kerko'')
              | Some raw \<Rightarrow> raw)
             ''en'' (length h)"
    and dev: "dev = DevelopmentConfig_namespace ad zs ze
             (case ev ''LOGGING_LEVEL'' of None \<Rightarrow> ''DEBUG'' | Some raw \<Rightarrow> raw)"
    and prd: "prd = ProductionConfig_namespace pad
             (case ev ''LOGGING_LEVEL'' of None \<Rightarrow> ''WARNING'' | Some raw \<Rightarrow> raw)"
    and ad: "case ev ''ASSETS_DEBUG'' of None \<Rightarrow> ad = True | Some raw \<Rightarrow> parse_bool pf raw = Some ad"
    and pad: "case ev ''ASSETS_DEBUG'' of None \<Rightarrow> pad = False | Some raw \<Rightarrow> parse_bool pf raw = Some pad"
    and zs: "case ev ''KERKO_ZOTERO_START'' of None \<Rightarrow> zs = 0 | Some raw \<Rightarrow> parse_int pf raw = Some zs"
    and ze: "case ev ''KERKO_ZOTERO_END'' of None \<Rightarrow> ze = 0 | Some raw \<Rightarrow> parse_int pf raw = Some ze"
    and m: "m = \<lparr>Config = [cfg], DevelopmentConfig = [dev, cfg], ProductionConfig = [prd, cfg],
          CONFIGS = [(''development'', [dev, cfg]), (''production'', [prd, cfg])]\<rparr>"
    by (rule load_module_cases)
  have D: "DevelopmentConfig m = [dev, cfg]" and P: "ProductionConfig m = [prd, cfg]"
    by (simp_all add: m)
  have inh: "class_getattr [dev, cfg] ''app_dir'' = Some (PyPath (Absolute (Parent (Path fa))))"
    "class_getattr [prd, cfg] ''app_dir'' = Some (PyPath (Absolute (Parent (Path fa))))"
    "class_getattr [dev, cfg] ''SECRET_KEY'' = Some (PyStr sk)"
    "class_getattr [prd, cfg] ''SECRET_KEY'' = Some (PyStr sk)"
    "class_getattr [dev, cfg] ''KERKO_ZOTERO_API_KEY'' = Some (PyStr ak)"
    "class_getattr [prd, cfg] ''KERKO_ZOTERO_API_KEY'' = Some (PyStr ak)"
    "class_getattr [dev, cfg] ''KERKO_ZOTERO_LIBRARY_ID'' = Some (PyStr li)"
    "class_getattr [prd, cfg] ''KERKO_ZOTERO_LIBRARY_ID'' = Some (PyStr li)"
    "class_getattr [dev, cfg] ''KERKO_ZOTERO_LIBRARY_TYPE'' = Some (PyStr lt)"
    "class_getattr [prd, cfg] ''KERKO_ZOTERO_LIBRARY_TYPE'' = Some (PyStr lt)"
    by (simp_all add: cfg dev prd namespace_defs)
  have opt: "class_getattr [dev, cfg] ''KERKO_DATA_DIR'' =
      Some (PyStr (case ev ''KERKO_DATA_DIR'' of
                None \<Rightarrow> path_str pf (Join (Join (Absolute (Parent (Path fa))) ''data'') ''kerko'')
              | Some raw \<Rightarrow> raw))"
    "class_getattr [prd, cfg] ''KERKO_DATA_DIR'' =
      Some (PyStr (case ev ''KERKO_DATA_DIR'' of
                None \<Rightarrow> path_str pf (Join (Join (Absolute (Parent (Path fa))) ''data'') ''kerko'')
              | Some raw \<Rightarrow> raw))"
    "class_getattr [dev, cfg] ''LOGGING_LEVEL'' =
      Some (PyStr (case ev ''LOGGING_LEVEL'' of None \<Rightarrow> ''DEBUG'' | Some raw \<Rightarrow> raw))"
    "class_getattr [prd, cfg] ''LOGGING_LEVEL'' =
      Some (PyStr (case ev ''LOGGING_LEVEL'' of None \<Rightarrow> ''WARNING'' | Some raw \<Rightarrow> raw))"
    "class_getattr [dev, cfg] ''ASSETS_DEBUG'' = Some (PyBool ad)"
    "class_getattr [prd, cfg] ''ASSETS_DEBUG'' = Some (PyBool pad)"
    "class_getattr [dev, cfg] ''KERKO_ZOTERO_START'' = Some (PyInt zs)"
    "class_getattr [dev, cfg] ''KERKO_ZOTERO_END'' = Some (PyInt ze)"
    "class_getattr [prd, cfg] ''KERKO_ZOTERO_START'' = None"
    "class_getattr [prd, cfg] ''KERKO_ZOTERO_END'' = None"
    by (simp_all add: cfg dev prd namespace_defs)
  show ?thesis
    unfolding D P using e ad pad zs ze
    by (auto simp add: inh opt simp del: class_getattr.simps split: option.splits)
qed

lemma sample_full_env:
  "full_env ''FLASK_APP'' = Some ''app''" "full_env ''SECRET_KEY'' = Some ''s3cr3t''"
  "full_env ''KERKO_ZOTERO_API_KEY'' = Some ''k''" "full_env ''KERKO_ZOTERO_LIBRARY_ID'' = Some ''42''"
  "full_env ''KERKO_ZOTERO_LIBRARY_TYPE'' = Some ''group''"
  "full_env ''KERKO_DATA_DIR'' = Some ''/data''"
  "full_env ''ASSETS_DEBUG'' = Some ''false''" "full_env ''KERKO_ZOTERO_START'' = Some ''100''"
  "full_env ''KERKO_ZOTERO_END'' = Some ''0''" "full_env ''LOGGING_LEVEL'' = Some ''INFO''"
  by (simp_all add: full_env_def)

lemma sample_parsers:
  "parse_bool sample_platform ''false'' = Some False"
  "parse_int sample_platform ''100'' = Some 100" "parse_int sample_platform ''0'' = Some 0"
  by (simp_all add: sample_platform_def)

theorem typed_parse_of_variables_witness:
  "load_module sample_platform full_env [] =
     (Inr (loaded sample_platform full_env), snd (load_module sample_platform full_env [])) \<and>
   class_getattr (DevelopmentConfig (loaded sample_platform full_env)) ''SECRET_KEY'' =
     Some (PyStr ''s3cr3t'') \<and>
   class_getattr (ProductionConfig (loaded sample_platform full_env)) ''SECRET_KEY'' =
     Some (PyStr ''s3cr3t'') \<and>
   full_env ''KERKO_DATA_DIR'' = Some ''/data'' \<and>
   class_getattr (ProductionConfig (loaded sample_platform full_env)) ''KERKO_DATA_DIR'' =
     Some (PyStr ''/data'') \<and>
   full_env ''ASSETS_DEBUG'' = Some ''false'' \<and>
   class_getattr (DevelopmentConfig (loaded sample_platform full_env)) ''ASSETS_DEBUG'' =
     Some (PyBool False) \<and>
   class_getattr (ProductionConfig (loaded sample_platform full_env)) ''ASSETS_DEBUG'' =
     Some (PyBool False) \<and>
   full_env ''KERKO_ZOTERO_START'' = Some ''100'' \<and>
   class_getattr (DevelopmentConfig (loaded sample_platform full_env)) ''KERKO_ZOTERO_START'' =
     Some (PyInt 100) \<and>
   full_env ''KERKO_ZOTERO_END'' = Some ''0'' \<and>
   class_getattr (DevelopmentConfig (loaded sample_platform full_env)) ''KERKO_ZOTERO_END'' =
     Some (PyInt 0) \<and>
   full_env ''LOGGING_LEVEL'' = Some ''INFO'' \<and>
   class_getattr (DevelopmentConfig (loaded sample_platform full_env)) ''LOGGING_LEVEL'' =
     Some (PyStr ''INFO'')"
  using typed_parse_of_variables [OF load_full] load_full
  by (auto simp add: sample_full_env sample_parsers simp del: class_getattr.simps)

text \<open>The production class and its base bind neither name of the item range.\<close>

lemma ProductionConfig_lacks_zotero_range:
  assumes "load_module pf ev h = (Inr m, h')"
  shows "class_getattr (ProductionConfig m) ''KERKO_ZOTERO_START'' = None"
    and "class_getattr (ProductionConfig m) ''KERKO_ZOTERO_END'' = None"
proof -
  from assms obtain fa sk ak li lt c ad zs ze pad cfg dev prd where
    cfg: "cfg = Config_namespace pf (Absolute (Parent (Path fa))) sk ak li lt
             (case ev ''KERKO_DATA_DIR'' of
                None \<Rightarrow> path_str pf (Join (Join (Absolute (Parent (Path fa))) ''data'') ''kerko'')
              | Some raw \<Rightarrow> raw)
             ''en'' (length h)"
    and prd: "prd = ProductionConfig_namespace pad
             (case ev ''LOGGING_LEVEL'' of None \<Rightarrow> ''WARNING'' | Some raw \<Rightarrow> raw)"
    and m: "m = \<lparr>Config = [cfg], DevelopmentConfig = [dev, cfg], ProductionConfig = [prd, cfg],
          CONFIGS = [(''development'', [dev, cfg]), (''production'', [prd, cfg])]\<rparr>"
    by (rule load_module_cases)
  show "class_getattr (ProductionConfig m) ''KERKO_ZOTERO_START'' = None"
    and "class_getattr (ProductionConfig m) ''KERKO_ZOTERO_END'' = None"
    by (simp_all add: m cfg prd namespace_defs)
qed

text \<open>
  Claim C7 as stated fails for the production configuration: with
  \<^verbatim>\<open>KERKO_ZOTERO_START\<close> set to a text the integer parser accepts, the load succeeds and
  the production configuration has no such attribute.
\<close>

theorem production_has_no_zotero_start_counterexample:
  "full_env ''KERKO_ZOTERO_START'' = Some ''100'' \<and>
   parse_int sample_platform ''100'' = Some 100 \<and>
   load_module sample_platform full_env [] =
     (Inr (loaded sample_platform full_env), snd (load_module sample_platform full_env [])) \<and>
   class_getattr (ProductionConfig (loaded sample_platform full_env)) ''KERKO_ZOTERO_START'' = None"
  using ProductionConfig_lacks_zotero_range(1) [OF load_full] load_full
  by (simp add: sample_full_env sample_parsers)

text \<open>The reference the base class holds.\<close>

lemma Config_composer_ref:
  assumes "load_module pf ev h = (Inr m, h')"
  shows "class_getattr (Config m) ''KERKO_COMPOSER'' = Some (PyRef (length h))"
proof -
  from assms obtain fa sk ak li lt c ad zs ze pad cfg dev prd where
    cfg: "cfg = Config_namespace pf (Absolute (Parent (Path fa))) sk ak li lt
             (case ev ''KERKO_DATA_DIR'' of
                None \<Rightarrow> path_str pf (Join (Join (Absolute (Parent (Path fa))) ''data'') ''kerko'')
              | Some raw \<Rightarrow> raw)
             ''en'' (length h)"
    and m: "m = \<lparr>Config = [cfg], DevelopmentConfig = [dev, cfg], ProductionConfig = [prd, cfg],
          CONFIGS = [(''development'', [dev, cfg]), (''production'', [prd, cfg])]\<rparr>"
    by (rule load_module_cases)
  show ?thesis by (simp add: m cfg namespace_defs)
qed

text \<open>
  Claim C9. Each of the two configurations is the base class with a namespace of its
  own in front, which binds exactly the names listed. Every attribute of \<^verbatim>\<open>Config\<close> has
  the same value in \<^verbatim>\<open>DevelopmentConfig\<close> and in \<^verbatim>\<open>ProductionConfig\<close>; for every name
  that a subclass does not bind itself, the lookup in the subclass is the lookup in
  \<^verbatim>\<open>Config\<close>; and \<^verbatim>\<open>CONFIGS\<close> maps the two names to the two classes.
\<close>

theorem subclasses_expose_base:
  assumes "load_module pf ev h = (Inr m, h')"
  shows "(\<exists>own. DevelopmentConfig m = own # Config m \<and>
            map fst own = [''CONFIG'', ''DEBUG'', ''ASSETS_DEBUG'', ''KERKO_ZOTERO_START'',
                           ''KERKO_ZOTERO_END'', ''LIBSASS_STYLE'', ''LOGGING_LEVEL'']) \<and>
         (\<exists>own. ProductionConfig m = own # Config m \<and>
            map fst own = [''CONFIG'', ''DEBUG'', ''ASSETS_DEBUG'', ''ASSETS_AUTO_BUILD'',
                           ''LOGGING_LEVEL'', ''GOOGLE_ANALYTICS_ID'', ''LIBSASS_STYLE'']) \<and>
         (\<forall>n v. class_getattr (Config m) n = Some v \<longrightarrow>
            class_getattr (DevelopmentConfig m) n = Some v \<and>
            class_getattr (ProductionConfig m) n = Some v) \<and>
         (\<forall>n. n \<notin> set [''CONFIG'', ''DEBUG'', ''ASSETS_DEBUG'', ''KERKO_ZOTERO_START'',
                         ''KERKO_ZOTERO_END'', ''LIBSASS_STYLE'', ''LOGGING_LEVEL''] \<longrightarrow>
            class_getattr (DevelopmentConfig m) n = class_getattr (Config m) n) \<and>
         (\<forall>n. n \<notin> set [''CONFIG'', ''DEBUG'', ''ASSETS_DEBUG'', ''ASSETS_AUTO_BUILD'',
                         ''LOGGING_LEVEL'', ''GOOGLE_ANALYTICS_ID'', ''LIBSASS_STYLE''] \<longrightarrow>
            class_getattr (ProductionConfig m) n = class_getattr (Config m) n) \<and>
         map_of (CONFIGS m) ''development'' = Some (DevelopmentConfig m) \<and>
         map_of (CONFIGS m) ''production'' = Some (ProductionConfig m)"
proof -
  from assms obtain fa sk ak li lt c ad zs ze pad cfg dev prd where
    cfg: "cfg = Config_namespace pf (Absolute (Parent (Path fa))) sk ak li lt
             (case ev ''KERKO_DATA_DIR'' of
                None \<Rightarrow> path_str pf (Join (Join (Absolute (Parent (Path fa))) ''data'') ''kerko'')
              | Some raw \<Rightarrow> raw)
             ''en'' (length h)"
    and dev: "dev = DevelopmentConfig_namespace ad zs ze
             (case ev ''LOGGING_LEVEL'' of None \<Rightarrow> ''DEBUG'' | Some raw \<Rightarrow> raw)"
    and prd: "prd = ProductionConfig_namespace pad
             (case ev ''LOGGING_LEVEL'' of None \<Rightarrow> ''WARNING'' | Some raw \<Rightarrow> raw)"
    and m: "m = \<lparr>Config = [cfg], DevelopmentConfig = [dev, cfg], ProductionConfig = [prd, cfg],
          CONFIGS = [(''development'', [dev, cfg]), (''production'', [prd, cfg])]\<rparr>"
    by (rule load_module_cases)
  have C: "Config m = [cfg]" and D: "DevelopmentConfig m = [dev, cfg]"
    and P: "ProductionConfig m = [prd, cfg]"
    by (simp_all add: m)
  have nd: "map fst dev = [''CONFIG'', ''DEBUG'', ''ASSETS_DEBUG'', ''KERKO_ZOTERO_START'',
                           ''KERKO_ZOTERO_END'', ''LIBSASS_STYLE'', ''LOGGING_LEVEL'']"
    unfolding dev by (rule DevelopmentConfig_namespace_names)
  have np: "map fst prd = [''CONFIG'', ''DEBUG'', ''ASSETS_DEBUG'', ''ASSETS_AUTO_BUILD'',
                           ''LOGGING_LEVEL'', ''GOOGLE_ANALYTICS_ID'', ''LIBSASS_STYLE'']"
    unfolding prd by (rule ProductionConfig_namespace_names)
  have base: "class_getattr [cfg] n = map_of cfg n" for n
    by (simp split: option.splits)
  have 1: "\<exists>own. DevelopmentConfig m = own # Config m \<and>
            map fst own = [''CONFIG'', ''DEBUG'', ''ASSETS_DEBUG'', ''KERKO_ZOTERO_START'',
                           ''KERKO_ZOTERO_END'', ''LIBSASS_STYLE'', ''LOGGING_LEVEL'']"
    using nd by (simp add: C D)
  have 2: "\<exists>own. ProductionConfig m = own # Config m \<and>
            map fst own = [''CONFIG'', ''DEBUG'', ''ASSETS_DEBUG'', ''ASSETS_AUTO_BUILD'',
                           ''LOGGING_LEVEL'', ''GOOGLE_ANALYTICS_ID'', ''LIBSASS_STYLE'']"
    using np by (simp add: C P)
  have 3: "class_getattr (DevelopmentConfig m) n = Some v \<and>
           class_getattr (ProductionConfig m) n = Some v"
    if "class_getattr (Config m) n = Some v" for n v
  proof -
    from that have v: "map_of cfg n = Some v" unfolding C base .
    then have "n \<in> set (map fst cfg)" by (metis map_of_None_iff option.distinct(1))
    then have "n \<notin> set (map fst dev)" "n \<notin> set (map fst prd)"
      unfolding cfg dev prd
      by (rule Config_names_not_Development, rule Config_names_not_Production)
    then show ?thesis unfolding D P class_getattr_inherited using v by simp
  qed
  have 4: "class_getattr (DevelopmentConfig m) n = class_getattr (Config m) n"
    if "n \<notin> set [''CONFIG'', ''DEBUG'', ''ASSETS_DEBUG'', ''KERKO_ZOTERO_START'',
                         ''KERKO_ZOTERO_END'', ''LIBSASS_STYLE'', ''LOGGING_LEVEL'']" for n
    using that unfolding D C class_getattr_inherited base nd by simp
  have 5: "class_getattr (ProductionConfig m) n = class_getattr (Config m) n"
    if "n \<notin> set [''CONFIG'', ''DEBUG'', ''ASSETS_DEBUG'', ''ASSETS_AUTO_BUILD'',
                         ''LOGGING_LEVEL'', ''GOOGLE_ANALYTICS_ID'', ''LIBSASS_STYLE'']" for n
    using that unfolding P C class_getattr_inherited base np by simp
  have 6: "map_of (CONFIGS m) ''development'' = Some (DevelopmentConfig m)"
    "map_of (CONFIGS m) ''production'' = Some (ProductionConfig m)"
    by (simp_all add: m)
  from 1 2 3 4 5 6 show ?thesis by blast
qed

theorem subclasses_expose_base_witness:
  "load_module sample_platform full_env [] =
     (Inr (loaded sample_platform full_env), snd (load_module sample_platform full_env [])) \<and>
   class_getattr (Config (loaded sample_platform full_env)) ''KERKO_COMPOSER'' = Some (PyRef 0) \<and>
   class_getattr (DevelopmentConfig (loaded sample_platform full_env)) ''KERKO_COMPOSER'' =
     Some (PyRef 0) \<and>
   class_getattr (ProductionConfig (loaded sample_platform full_env)) ''KERKO_COMPOSER'' =
     Some (PyRef 0) \<and>
   ''HOME_URL'' \<notin> set [''CONFIG'', ''DEBUG'', ''ASSETS_DEBUG'', ''KERKO_ZOTERO_START'',
                      ''KERKO_ZOTERO_END'', ''LIBSASS_STYLE'', ''LOGGING_LEVEL''] \<and>
   class_getattr (DevelopmentConfig (loaded sample_platform full_env)) ''HOME_URL'' =
     class_getattr (Config (loaded sample_platform full_env)) ''HOME_URL'' \<and>
   ''HOME_URL'' \<notin> set [''CONFIG'', ''DEBUG'', ''ASSETS_DEBUG'', ''ASSETS_AUTO_BUILD'',
                      ''LOGGING_LEVEL'', ''GOOGLE_ANALYTICS_ID'', ''LIBSASS_STYLE''] \<and>
   class_getattr (ProductionConfig (loaded sample_platform full_env)) ''HOME_URL'' =
     class_getattr (Config (loaded sample_platform full_env)) ''HOME_URL''"
proof -
  have c: "class_getattr (Config (loaded sample_platform full_env)) ''KERKO_COMPOSER'' =
      Some (PyRef 0)"
    using Config_composer_ref [OF load_full] by simp
  from subclasses_expose_base [OF load_full] c load_full show ?thesis
    by (simp del: class_getattr.simps)
qed

end
